theory Spec2Isabelle
  imports Complex_Main "HOL-Library.Multiset"
begin

section \<open>Natural Selection Simulator (birds edition): the simulation core\<close>

text \<open>
  The development embeds the simulation logic of \<^verbatim>\<open>src/dna_mutation_explorer_game.jsx\<close>:
  \<^verbatim>\<open>randomPopulation\<close>, \<^verbatim>\<open>fitnessForTrait\<close>, and the handlers
  \<^verbatim>\<open>simulateGeneration\<close> and \<^verbatim>\<open>quickScenario\<close> of the component.

  Conventions of the embedding.
  \<^item> JavaScript numbers that hold fitness values, scores and random draws are modelled
    as \<open>real\<close>: the arithmetic is the exact one, not IEEE-754 rounding. Where a statement
    turns on rounding, the fitness function is taken with binary64 rounding
    (\<open>fitnessForTrait64\<close>), which for predator strengths of \<open>[0, 1]\<close> stays within
    \<open>1 / 2 ^ 51\<close> of the exact one. Counters
    that the program only ever moves in whole steps (\<^verbatim>\<open>populationSize\<close>,
    \<^verbatim>\<open>foodPerGen\<close>, \<^verbatim>\<open>generation\<close>) are \<open>nat\<close>.
  \<^item> Trait and seed names stay strings, as in the source, so that a comparison chain
    \<^verbatim>\<open>trait === "Small" ? .. : trait === "Medium" ? .. : ..\<close> keeps its fall-through branch.
  \<^item> \<^verbatim>\<open>Math.random()\<close> is an explicit source of draws \<open>rnd :: nat \<Rightarrow> real\<close> read at a
    position \<open>k\<close>; every function that draws returns the position after its last draw.
    The contract of \<^verbatim>\<open>Math.random()\<close> (a value in \<open>[0, 1)\<close>) is the predicate
    \<open>unit_draws\<close>, assumed where a result depends on it.
  \<^item> React state is a record; a handler maps the state of the render it runs in to the
    state after its batch of updates.
\<close>

subsection \<open>Data\<close>

type_synonym rng = "nat \<Rightarrow> real"

definition unit_draws :: "rng \<Rightarrow> bool" where
  "unit_draws rnd = (\<forall>n. 0 \<le> rnd n \<and> rnd n < 1)"

definition TRAITS :: "string list" where
  "TRAITS = [''Small'', ''Medium'', ''Large'']"

text \<open>
  An array read \<^verbatim>\<open>arr[i]\<close>. Out of range JavaScript yields \<^verbatim>\<open>undefined\<close>, written here
  as a string that is none of the trait names.
\<close>

definition at_index :: "string list \<Rightarrow> int \<Rightarrow> string" where
  "at_index arr i = (if 0 \<le> i \<and> i < int (length arr) then arr ! nat i else ''undefined'')"

text \<open>
  An organism \<^verbatim>\<open>{ id, trait, energy }\<close>. The source renders the id as
  \<^verbatim>\<open>Math.random().toString(36).slice(2, 9)\<close>; the record keeps the draw it is rendered from.
\<close>

record organism =
  oid :: real
  trait :: string
  energy :: real

text \<open>\<^verbatim>\<open>{ ...org, score }\<close>\<close>

record scored_organism = organism +
  score :: real

record environment =
  seed :: string
  predatorStrength :: real

subsection \<open>Fitness model\<close>

text \<open>The two locals of \<^verbatim>\<open>fitnessForTrait\<close>, \<^verbatim>\<open>base\<close> and \<^verbatim>\<open>predatorPenalty\<close>.\<close>

definition base :: "string \<Rightarrow> environment \<Rightarrow> real" where
  "base tr e =
     (if seed e = ''small'' then
        (if tr = ''Small'' then 1.2 else if tr = ''Medium'' then 1.0 else 0.8)
      else if seed e = ''mixed'' then
        (if tr = ''Small'' then 1.05 else if tr = ''Medium'' then 1.1 else 1.0)
      else
        (if tr = ''Small'' then 0.7 else if tr = ''Medium'' then 1.0 else 1.25))"

definition predatorPenalty :: "string \<Rightarrow> environment \<Rightarrow> real" where
  "predatorPenalty tr e =
     predatorStrength e * (if tr = ''Large'' then 0.3 else if tr = ''Small'' then 0.05 else 0.15)"

definition fitnessForTrait :: "string \<Rightarrow> environment \<Rightarrow> real" where
  "fitnessForTrait tr e = max 0.1 (base tr e - predatorPenalty tr e)"

text \<open>
  The policy table and the penalty factors in the words of the specification, to compare
  \<open>fitnessForTrait\<close> with.
\<close>

fun spec_base :: "string \<Rightarrow> string \<Rightarrow> real" where
  "spec_base sd tr =
     (if sd = ''small'' \<and> tr = ''Small'' then 1.2
      else if sd = ''small'' \<and> tr = ''Medium'' then 1.0
      else if sd = ''small'' \<and> tr = ''Large'' then 0.8
      else if sd = ''mixed'' \<and> tr = ''Small'' then 1.05
      else if sd = ''mixed'' \<and> tr = ''Medium'' then 1.1
      else if sd = ''mixed'' \<and> tr = ''Large'' then 1.0
      else if sd = ''large'' \<and> tr = ''Small'' then 0.7
      else if sd = ''large'' \<and> tr = ''Medium'' then 1.0
      else if sd = ''large'' \<and> tr = ''Large'' then 1.25
      else 0)"

fun spec_penaltyFactor :: "string \<Rightarrow> real" where
  "spec_penaltyFactor tr =
     (if tr = ''Large'' then 0.3
      else if tr = ''Medium'' then 0.15
      else if tr = ''Small'' then 0.05
      else 0)"

definition SEEDS :: "string list" where
  "SEEDS = [''small'', ''mixed'', ''large'']"

subsection \<open>The fitness model in binary64\<close>

text \<open>
  A JavaScript number is an IEEE-754 binary64 value: a literal denotes the value nearest
  to it, and \<^verbatim>\<open>*\<close> and \<^verbatim>\<open>-\<close> return the value nearest to the exact result, a tie
  going to the even significand. \<open>binary64 x\<close> is that nearest value: \<open>x\<close> is scaled by
  the unit in the last place of its binade (53 significant bits, the subnormal spacing
  \<open>2 powr - 1074\<close> below \<open>2 powr - 1022\<close>), rounded to an integer, and scaled back. Magnitudes
  from \<open>2 powr 1024\<close> on, which round to \<^verbatim>\<open>Infinity\<close>, are outside this model; fitness values
  stay below \<open>2\<close>.
\<close>

definition roundTiesToEven :: "real \<Rightarrow> int" where
  "roundTiesToEven y =
     (let n = \<lfloor>y\<rfloor>; d = y - of_int n
      in if d < 1/2 then n else if 1/2 < d then n + 1 else if even n then n else n + 1)"

definition ulp_exponent :: "real \<Rightarrow> int" where
  "ulp_exponent x = max \<lfloor>log 2 \<bar>x\<bar>\<rfloor> (- 1022) - 52"

definition binary64 :: "real \<Rightarrow> real" where
  "binary64 x =
     (if x = 0 then 0
      else of_int (roundTiesToEven (x / 2 powr of_int (ulp_exponent x)))
             * 2 powr of_int (ulp_exponent x))"

text \<open>
  \<^verbatim>\<open>fitnessForTrait\<close> once more, with every literal and every operation rounded as the
  program rounds them (\<^verbatim>\<open>Math.max\<close> returns one of its arguments and does not round).
\<close>

definition base64 :: "string \<Rightarrow> environment \<Rightarrow> real" where
  "base64 tr e =
     (if seed e = ''small'' then
        (if tr = ''Small'' then binary64 1.2 else if tr = ''Medium'' then binary64 1.0
         else binary64 0.8)
      else if seed e = ''mixed'' then
        (if tr = ''Small'' then binary64 1.05 else if tr = ''Medium'' then binary64 1.1
         else binary64 1.0)
      else
        (if tr = ''Small'' then binary64 0.7 else if tr = ''Medium'' then binary64 1.0
         else binary64 1.25))"

definition predatorPenalty64 :: "string \<Rightarrow> environment \<Rightarrow> real" where
  "predatorPenalty64 tr e =
     binary64 (predatorStrength e *
       (if tr = ''Large'' then binary64 0.3 else if tr = ''Small'' then binary64 0.05
        else binary64 0.15))"

definition fitnessForTrait64 :: "string \<Rightarrow> environment \<Rightarrow> real" where
  "fitnessForTrait64 tr e = max (binary64 0.1) (binary64 (base64 tr e - predatorPenalty64 tr e))"

subsection \<open>Organism factory\<close>

text \<open>
  \<^verbatim>\<open>Array.from({ length: size }, () => ({ id: .., trait: TRAITS[Math.floor(Math.random() * TRAITS.length)], energy: 0 }))\<close>:
  per organism one draw for the id, then one for the trait.
\<close>

fun randomPopulation :: "nat \<Rightarrow> rng \<Rightarrow> nat \<Rightarrow> organism list \<times> nat" where
  "randomPopulation 0 rnd k = ([], k)"
| "randomPopulation (Suc n) rnd k =
     (let org = \<lparr>oid = rnd k,
                 trait = at_index TRAITS \<lfloor>rnd (k + 1) * real (length TRAITS)\<rfloor>,
                 energy = 0\<rparr>;
          (rest, k') = randomPopulation n rnd (k + 2)
      in (org # rest, k'))"

subsection \<open>Simulation state\<close>

text \<open>\<^verbatim>\<open>const counts = { Small: 0, Medium: 0, Large: 0 }\<close>\<close>

record trait_counts =
  Small :: nat
  Medium :: nat
  Large :: nat

text \<open>A history entry \<^verbatim>\<open>{ generation, counts: { ...traitCounts }, env: { ...env } }\<close>.\<close>

record history_entry =
  generation :: nat
  counts :: trait_counts
  env :: environment

text \<open>The \<^verbatim>\<open>useState\<close> cells of the component.\<close>

record sim_state =
  generation :: nat
  populationSize :: nat
  population :: "organism list"
  env :: environment
  foodPerGen :: nat
  history :: "history_entry list"
  message :: string
  running :: bool

text \<open>
  \<^verbatim>\<open>population.forEach((p) => (counts[p.trait]++))\<close>. For a trait that is none of the three
  keys JavaScript adds a property of its own and leaves the three counters as they are.
\<close>

definition bump :: "trait_counts \<Rightarrow> organism \<Rightarrow> trait_counts" where
  "bump c p =
     (if trait p = ''Small'' then c\<lparr>Small := Small c + 1\<rparr>
      else if trait p = ''Medium'' then c\<lparr>Medium := Medium c + 1\<rparr>
      else if trait p = ''Large'' then c\<lparr>Large := Large c + 1\<rparr>
      else c)"

definition traitCounts :: "organism list \<Rightarrow> trait_counts" where
  "traitCounts pop = foldl bump \<lparr>Small = 0, Medium = 0, Large = 0\<rparr> pop"

subsection \<open>Generation engine: the stages of \<^verbatim>\<open>simulateGeneration\<close>\<close>

text \<open>
  Scoring, \<^verbatim>\<open>population.map((org) => { .. return { ...org, score } })\<close>: one draw per
  organism, in order.
\<close>

definition scoreOne :: "environment \<Rightarrow> organism \<Rightarrow> real \<Rightarrow> scored_organism" where
  "scoreOne e org u =
     (let fit = fitnessForTrait (trait org) e;
          randomNoise = 0.7 + u * 0.6
      in \<lparr>oid = oid org, trait = trait org, energy = energy org, score = fit * randomNoise\<rparr>)"

fun scoreAll :: "environment \<Rightarrow> organism list \<Rightarrow> rng \<Rightarrow> nat \<Rightarrow> scored_organism list \<times> nat" where
  "scoreAll e [] rnd k = ([], k)"
| "scoreAll e (org # orgs) rnd k =
     (let p = scoreOne e org (rnd k);
          (ps, k') = scoreAll e orgs rnd (k + 1)
      in (p # ps, k'))"

text \<open>
  \<^verbatim>\<open>scored.sort((a, b) => b.score - a.score)\<close>: descending by score; the sort of an
  array is stable.
\<close>

definition sortByScore :: "scored_organism list \<Rightarrow> scored_organism list" where
  "sortByScore scored = sort_key (\<lambda>p. - score p) scored"

text \<open>The food loop: it visits every scored organism and admits one while food is left.\<close>

fun feed :: "nat \<Rightarrow> scored_organism list \<Rightarrow> scored_organism list" where
  "feed foodLeft [] = []"
| "feed foodLeft (p # ps) =
     (if foodLeft > 0 then p # feed (foodLeft - 1) ps else feed foodLeft ps)"

text \<open>\<^verbatim>\<open>survivors.filter(() => Math.random() > env.predatorStrength * 0.5)\<close>\<close>

fun predation :: "environment \<Rightarrow> scored_organism list \<Rightarrow> rng \<Rightarrow> nat \<Rightarrow> scored_organism list \<times> nat" where
  "predation e [] rnd k = ([], k)"
| "predation e (p # ps) rnd k =
     (let keep = rnd k > predatorStrength e * 0.5;
          (rest, k') = predation e ps rnd (k + 1)
      in (if keep then p # rest else rest, k'))"

text \<open>\<^verbatim>\<open>afterPredation.reduce((s, p) => s + p.score, 0)\<close>\<close>

definition totalScore :: "scored_organism list \<Rightarrow> real" where
  "totalScore pool = foldl (\<lambda>s p. s + score p) 0 pool"

text \<open>
  The roulette walk \<^verbatim>\<open>for (const p of afterPredation) { acc += p.score; if (pick <= acc) { parent = p; break; } }\<close>,
  started with \<^verbatim>\<open>acc = 0\<close> and \<^verbatim>\<open>parent = afterPredation[0]\<close>.
\<close>

fun walk :: "real \<Rightarrow> real \<Rightarrow> scored_organism \<Rightarrow> scored_organism list \<Rightarrow> scored_organism" where
  "walk pick acc parent [] = parent"
| "walk pick acc parent (p # ps) =
     (let acc' = acc + score p
      in if pick \<le> acc' then p else walk pick acc' parent ps)"

text \<open>The mutation branch, on the draw \<open>u\<close> it makes.\<close>

definition mutated :: "string \<Rightarrow> real \<Rightarrow> string" where
  "mutated tr u =
     (if tr = ''Small'' then (if u < 0.5 then ''Small'' else ''Medium'')
      else if tr = ''Medium'' then at_index [''Small'', ''Medium'', ''Large''] \<lfloor>u * 3\<rfloor>
      else (if u < 0.5 then ''Medium'' else ''Large''))"

text \<open>
  One pass of the body of the \<^verbatim>\<open>while\<close> loop for a pool whose first member is \<open>p0\<close>:
  the draw for \<^verbatim>\<open>pick\<close>, the draw for \<^verbatim>\<open>mutate\<close>, the draw of the mutation when it
  happens, the draw for the id.
\<close>

definition breed :: "scored_organism \<Rightarrow> scored_organism list \<Rightarrow> rng \<Rightarrow> nat \<Rightarrow> organism \<times> nat" where
  "breed p0 afterPredation rnd k =
     (let pick = rnd k * totalScore afterPredation;
          parent = walk pick 0 p0 afterPredation;
          mutate = rnd (k + 1) < 0.06;
          tr = (if mutate then mutated (trait parent) (rnd (k + 2)) else trait parent);
          k' = (if mutate then k + 3 else k + 2)
      in (\<lparr>oid = rnd k', trait = tr, energy = 0\<rparr>, k' + 1))"

text \<open>
  \<^verbatim>\<open>while (offspring.length < populationSize) { if (afterPredation.length === 0) break; .. offspring.push(..) }\<close>
\<close>

function reproduce :: "nat \<Rightarrow> scored_organism list \<Rightarrow> rng \<Rightarrow> organism list \<Rightarrow> nat \<Rightarrow> organism list \<times> nat" where
  "reproduce sz afterPredation rnd offspring k =
     (if length offspring < sz then
        (case afterPredation of
           [] \<Rightarrow> (offspring, k)
         | p0 # _ \<Rightarrow>
             reproduce sz afterPredation rnd
               (offspring @ [fst (breed p0 afterPredation rnd k)])
               (snd (breed p0 afterPredation rnd k)))
      else (offspring, k))"
  by pat_completeness auto
termination
  by (relation "measure (\<lambda>(sz, afterPredation, rnd, offspring, k). sz - length offspring)") auto

declare reproduce.simps [simp del]

text \<open>
  The locals of \<^verbatim>\<open>simulateGeneration\<close> as functions of the state \<open>s\<close> of the render and of
  the position \<open>k\<close> of the first draw; each is paired with the position after its draws.
  \<open>scored\<close> is the array as the stages after the sort read it, sorted in place.
\<close>

definition scored :: "rng \<Rightarrow> nat \<Rightarrow> sim_state \<Rightarrow> scored_organism list \<times> nat" where
  "scored rnd k s = (case scoreAll (env s) (population s) rnd k of (ps, k') \<Rightarrow> (sortByScore ps, k'))"

definition survivors :: "rng \<Rightarrow> nat \<Rightarrow> sim_state \<Rightarrow> scored_organism list \<times> nat" where
  "survivors rnd k s = (case scored rnd k s of (ps, k') \<Rightarrow> (feed (foodPerGen s) ps, k'))"

definition afterPredation :: "rng \<Rightarrow> nat \<Rightarrow> sim_state \<Rightarrow> scored_organism list \<times> nat" where
  "afterPredation rnd k s = (case survivors rnd k s of (ps, k') \<Rightarrow> predation (env s) ps rnd k')"

definition offspring :: "rng \<Rightarrow> nat \<Rightarrow> sim_state \<Rightarrow> organism list \<times> nat" where
  "offspring rnd k s =
     (case afterPredation rnd k s of (ps, k') \<Rightarrow> reproduce (populationSize s) ps rnd [] k')"

text \<open>
  \<^verbatim>\<open>if (newPop.length < populationSize) { newPop = [...newPop, ...randomPopulation(populationSize - newPop.length)]; setMessage((m) => m + " Population weakened; random immigrants arrived."); }\<close>
\<close>

definition weakened :: "rng \<Rightarrow> nat \<Rightarrow> sim_state \<Rightarrow> bool" where
  "weakened rnd k s = (length (fst (offspring rnd k s)) < populationSize s)"

definition newPop :: "rng \<Rightarrow> nat \<Rightarrow> sim_state \<Rightarrow> organism list \<times> nat" where
  "newPop rnd k s =
     (case offspring rnd k s of (off, k') \<Rightarrow>
        if length off < populationSize s then
          (case randomPopulation (populationSize s - length off) rnd k' of
             (immigrants, k'') \<Rightarrow> (off @ immigrants, k''))
        else (off, k'))"

text \<open>
  The handler. Its updates are batched: \<^verbatim>\<open>setMessage("Simulating generation...")\<close> is
  queued first, so the updater \<^verbatim>\<open>(m) => m + ".."\<close> of the replenishment appends to that
  text. The history entry takes \<^verbatim>\<open>generation\<close>, \<^verbatim>\<open>traitCounts\<close> (the memo over
  \<^verbatim>\<open>population\<close>) and \<^verbatim>\<open>env\<close> of the render the handler runs in.
\<close>

definition simulateGeneration :: "rng \<Rightarrow> nat \<Rightarrow> sim_state \<Rightarrow> sim_state \<times> nat" where
  "simulateGeneration rnd k s =
     (let msg = ''Simulating generation...'';
          msg' = (if weakened rnd k s
                  then msg @ '' Population weakened; random immigrants arrived.''
                  else msg);
          entry = \<lparr>history_entry.generation = generation s,
                   counts = traitCounts (population s),
                   history_entry.env = env s\<rparr>
      in (s\<lparr>running := True,
            message := msg',
            history := history s @ [entry],
            population := fst (newPop rnd k s),
            generation := generation s + 1\<rparr>,
          snd (newPop rnd k s)))"

text \<open>The callback of \<^verbatim>\<open>setTimeout(.., 700)\<close>, which ends the step.\<close>

definition generationComplete :: "sim_state \<Rightarrow> sim_state" where
  "generationComplete s =
     s\<lparr>running := False,
       message := ''Generation complete. Observe the changes and adjust environment.''\<rparr>"

text \<open>
  \<open>n\<close> successive steps: the button is disabled while \<^verbatim>\<open>running\<close>, so each further
  click comes after the callback of the step before it.
\<close>

fun simulateGenerations :: "nat \<Rightarrow> rng \<Rightarrow> nat \<Rightarrow> sim_state \<Rightarrow> sim_state \<times> nat" where
  "simulateGenerations 0 rnd k s = (s, k)"
| "simulateGenerations (Suc n) rnd k s =
     (case simulateGeneration rnd k s of
        (s', k') \<Rightarrow> simulateGenerations n rnd k' (generationComplete s'))"

subsection \<open>Scenario presets\<close>

text \<open>
  How a call of a handler ends. The source has no \<^verbatim>\<open>throw\<close>; the type is there so that
  a statement about failing can be written down.
\<close>

datatype 'a completion = Returned 'a | Threw string

text \<open>Four independent \<^verbatim>\<open>if\<close> statements (no \<^verbatim>\<open>else\<close>), then the message.\<close>

definition quickScenario :: "string \<Rightarrow> sim_state \<Rightarrow> sim_state completion" where
  "quickScenario name s =
     (let s1 = (if name = ''Drought (small seeds)''
                then s\<lparr>env := \<lparr>seed = ''small'', predatorStrength = 0.2\<rparr>\<rparr> else s);
          s2 = (if name = ''Abundant large seeds''
                then s1\<lparr>env := \<lparr>seed = ''large'', predatorStrength = 0.1\<rparr>\<rparr> else s1);
          s3 = (if name = ''High predators''
                then s2\<lparr>env := \<lparr>seed = ''mixed'', predatorStrength = 0.6\<rparr>\<rparr> else s2);
          s4 = (if name = ''Mixed stable''
                then s3\<lparr>env := \<lparr>seed = ''mixed'', predatorStrength = 0.15\<rparr>\<rparr> else s3)
      in Returned (s4\<lparr>message := ''Scenario set: '' @ name\<rparr>))"

definition scenarioNames :: "string list" where
  "scenarioNames =
     [''Drought (small seeds)'', ''Abundant large seeds'', ''High predators'', ''Mixed stable'']"

text \<open>A state to evaluate on: three birds, food for two, the initial environment.\<close>

definition demo_state :: sim_state where
  "demo_state =
     \<lparr>generation = 1,
      populationSize = 3,
      population = [\<lparr>oid = 0.11, trait = ''Small'', energy = 0\<rparr>,
                    \<lparr>oid = 0.22, trait = ''Large'', energy = 0\<rparr>,
                    \<lparr>oid = 0.33, trait = ''Medium'', energy = 0\<rparr>],
      env = \<lparr>seed = ''mixed'', predatorStrength = 0.2\<rparr>,
      foodPerGen = 2,
      history = [],
      message = [],
      running = False\<rparr>"

text \<open>Draws to evaluate on: they cycle through four values of the unit interval.\<close>

definition demo_rnd :: rng where
  "demo_rnd n = (if n mod 4 = 0 then 0.9 else if n mod 4 = 1 then 0.05 else if n mod 4 = 2 then 0.4 else 0.7)"

section \<open>Verified properties\<close>

subsection \<open>Fitness model\<close>

lemma fitnessForTrait_floor: "0.1 \<le> fitnessForTrait tr e"
  by (simp add: fitnessForTrait_def)

text \<open>
  Claim C2. \<open>fitnessForTrait\<close> is a function of the trait, the seed size and the predator
  strength alone. For each of the three traits and each of the three seed sizes it is the
  value of the documented policy table minus the predator strength times the documented
  penalty factor, floored at \<open>0.1\<close>; and whatever the arguments, it is at least \<open>0.1\<close>.
\<close>

theorem fitnessForTrait_policy_table:
  assumes "tr \<in> set TRAITS" and "sd \<in> set SEEDS"
  shows "fitnessForTrait tr \<lparr>seed = sd, predatorStrength = ps\<rparr>
           = max 0.1 (spec_base sd tr - ps * spec_penaltyFactor tr)
         \<and> 0.1 \<le> fitnessForTrait tr' \<lparr>seed = sd', predatorStrength = ps'\<rparr>"
proof
  from assms show "fitnessForTrait tr \<lparr>seed = sd, predatorStrength = ps\<rparr>
      = max 0.1 (spec_base sd tr - ps * spec_penaltyFactor tr)"
    by (auto simp: fitnessForTrait_def base_def predatorPenalty_def TRAITS_def SEEDS_def)
  show "0.1 \<le> fitnessForTrait tr' \<lparr>seed = sd', predatorStrength = ps'\<rparr>"
    by (rule fitnessForTrait_floor)
qed

theorem fitnessForTrait_policy_table_witness:
  "''Large'' \<in> set TRAITS \<and> ''small'' \<in> set SEEDS
   \<and> fitnessForTrait ''Large'' \<lparr>seed = ''small'', predatorStrength = 0.5\<rparr> = 0.65
   \<and> 0.1 \<le> fitnessForTrait ''Gigantic'' \<lparr>seed = ''pebbles'', predatorStrength = 40\<rparr>"
proof -
  have t: "''Large'' \<in> set TRAITS" by (simp add: TRAITS_def)
  have s: "''small'' \<in> set SEEDS" by (simp add: SEEDS_def)
  show ?thesis
    using fitnessForTrait_policy_table [OF t s, of "0.5" "''Gigantic''" "''pebbles''" 40] t s
    by simp
qed

subsection \<open>The fitness model in binary64: rounding\<close>

lemma roundTiesToEven_error: "\<bar>of_int (roundTiesToEven y) - y\<bar> \<le> 1/2"
proof -
  have "of_int \<lfloor>y\<rfloor> \<le> y" "y < of_int \<lfloor>y\<rfloor> + 1" by linarith+
  then show ?thesis
    by (auto simp: roundTiesToEven_def Let_def)
qed

lemma roundTiesToEven_nearest:
  assumes "\<bar>y - of_int m\<bar> < 1/2"
  shows "roundTiesToEven y = m"
proof -
  have e: "\<bar>of_int (roundTiesToEven y) - y\<bar> \<le> 1/2" by (rule roundTiesToEven_error)
  from assms e have "\<bar>(of_int (roundTiesToEven y) :: real) - of_int m\<bar> < 1" by linarith
  then have "\<bar>(of_int (roundTiesToEven y - m) :: real)\<bar> < 1" by simp
  then have "\<bar>roundTiesToEven y - m\<bar> < 1"
    by (metis of_int_abs of_int_less_1_iff)
  then show ?thesis by simp
qed

lemma roundTiesToEven_tie:
  assumes "y = of_int n + 1/2"
  shows "roundTiesToEven y = (if even n then n else n + 1)"
proof -
  have "\<lfloor>y\<rfloor> = n" unfolding assms by (intro floor_unique) simp_all
  then show ?thesis by (simp add: roundTiesToEven_def Let_def assms)
qed

lemma roundTiesToEven_nonneg: "0 \<le> y \<Longrightarrow> 0 \<le> roundTiesToEven y"
  by (auto simp: roundTiesToEven_def Let_def)

lemma two_powr_neg: "(2::real) powr (- real n) = 1 / 2 ^ n"
  by (simp add: powr_minus powr_realpow divide_inverse)

lemma two_powr_neg_int: "(2::real) powr of_int (- int n) = 1 / 2 ^ n"
  using two_powr_neg [of n] by simp

lemma two_powr_neg_succ: "(2::real) powr (1 - real n) = 2 / 2 ^ n"
proof -
  have "(2::real) powr (1 + - real n) = 2 powr 1 * 2 powr (- real n)"
    by (rule powr_add)
  then show ?thesis by (simp add: two_powr_neg)
qed

lemma ulp_exponent_at:
  fixes a :: nat
  assumes "a \<le> 1022" and "1 / 2 ^ a \<le> \<bar>x\<bar>" and "\<bar>x\<bar> < 2 / 2 ^ a"
  shows "ulp_exponent x = - int (a + 52)"
proof -
  have pos: "0 < \<bar>x\<bar>" using assms(2)
    by (meson divide_pos_pos less_le_trans zero_less_numeral zero_less_one zero_less_power)
  have lo: "2 powr of_int (- int a) \<le> \<bar>x\<bar>"
    using assms(2) by (simp only: two_powr_neg_int)
  have "(2::real) powr of_int (- int a + 1) = 2 powr (1 - real a)"
    by simp
  then have hi: "\<bar>x\<bar> < 2 powr of_int (- int a + 1)"
    using assms(3) by (simp only: two_powr_neg_succ)
  have "\<lfloor>log 2 \<bar>x\<bar>\<rfloor> = - int a"
    using floor_log_eq_powr_iff [of "\<bar>x\<bar>" 2 "- int a"] pos lo hi by simp
  with assms(1) show ?thesis by (simp add: ulp_exponent_def)
qed

lemma binary64_scaled:
  fixes a :: nat
  assumes "a \<le> 1022" and "1 / 2 ^ a \<le> x" and "x < 2 / 2 ^ a"
  shows "binary64 x = of_int (roundTiesToEven (x * 2 ^ (a + 52))) / 2 ^ (a + 52)"
proof -
  have pos: "0 < x" using assms(2)
    by (meson divide_pos_pos less_le_trans zero_less_numeral zero_less_one zero_less_power)
  then have ax: "\<bar>x\<bar> = x" by simp
  have u: "ulp_exponent x = - int (a + 52)"
    using ulp_exponent_at [of a x] assms ax by simp
  have p: "(2::real) powr of_int (- int (a + 52)) = 1 / 2 ^ (a + 52)"
    by (rule two_powr_neg_int)
  from pos have nz: "x \<noteq> 0" by simp
  have "binary64 x = of_int (roundTiesToEven (x / 2 powr of_int (- int (a + 52))))
      * 2 powr of_int (- int (a + 52))"
    unfolding binary64_def u by (simp only: nz if_False)
  also have "\<dots> = of_int (roundTiesToEven (x / (1 / 2 ^ (a + 52)))) * (1 / 2 ^ (a + 52))"
    by (simp only: p)
  also have "\<dots> = of_int (roundTiesToEven (x * 2 ^ (a + 52))) / 2 ^ (a + 52)"
    by simp
  finally show ?thesis .
qed

lemma binary64_at:
  fixes a :: nat
  assumes "a \<le> 1022" and "1 / 2 ^ a \<le> x" and "x < 2 / 2 ^ a"
    and "\<bar>x * 2 ^ (a + 52) - of_int m\<bar> < 1/2"
  shows "binary64 x = of_int m / 2 ^ (a + 52)"
  using binary64_scaled [OF assms(1-3)] roundTiesToEven_nearest [OF assms(4)] by simp

lemma binary64_at_tie:
  fixes a :: nat
  assumes "a \<le> 1022" and "1 / 2 ^ a \<le> x" and "x < 2 / 2 ^ a"
    and "x * 2 ^ (a + 52) = of_int n + 1/2"
  shows "binary64 x = of_int (if even n then n else n + 1) / 2 ^ (a + 52)"
  using binary64_scaled [OF assms(1-3)] roundTiesToEven_tie [OF assms(4)] by simp

lemma binary64_zero: "binary64 0 = 0"
  by (simp add: binary64_def)

lemma binary64_nonneg: "0 \<le> x \<Longrightarrow> 0 \<le> binary64 x"
  by (simp add: binary64_def roundTiesToEven_nonneg)

lemma binary64_error:
  fixes a :: nat
  assumes "a \<le> 1022" and "\<bar>x\<bar> < 2 / 2 ^ a"
  shows "\<bar>binary64 x - x\<bar> \<le> 1 / 2 ^ (a + 53)"
proof (cases "x = 0")
  case True
  then show ?thesis by (simp add: binary64_def)
next
  case False
  then have pos: "0 < \<bar>x\<bar>" by simp
  let ?e = "ulp_exponent x"
  let ?u = "(2::real) powr of_int ?e"
  have "\<bar>x\<bar> < 2 powr (1 - real a)"
    using assms(2) by (simp only: two_powr_neg_succ)
  then have "log 2 \<bar>x\<bar> < 1 - real a"
    using pos by (simp add: log_less_iff)
  then have "\<lfloor>log 2 \<bar>x\<bar>\<rfloor> < 1 - int a"
    by (simp add: floor_less_iff)
  with assms(1) have e: "?e \<le> - int (a + 52)"
    by (simp add: ulp_exponent_def)
  have "?u \<le> (2::real) powr of_int (- int (a + 52))"
    using e by (intro powr_mono) simp_all
  also have "\<dots> = 1 / 2 ^ (a + 52)"
    by (rule two_powr_neg_int)
  finally have u: "?u \<le> 1 / 2 ^ (a + 52)" .
  have upos: "0 < ?u" by simp
  have "binary64 x - x = (of_int (roundTiesToEven (x / ?u)) - x / ?u) * ?u"
    using False upos by (simp add: binary64_def algebra_simps)
  then have "\<bar>binary64 x - x\<bar> = \<bar>of_int (roundTiesToEven (x / ?u)) - x / ?u\<bar> * ?u"
    using upos by (simp add: abs_mult)
  also have "\<dots> \<le> 1/2 * ?u"
    using roundTiesToEven_error [of "x / ?u"] upos by (intro mult_right_mono) simp_all
  also have "\<dots> \<le> 1/2 * (1 / 2 ^ (a + 52))"
    using u by simp
  also have "\<dots> = 1 / 2 ^ (a + 53)"
  proof -
    have "a + 53 = Suc (a + 52)" by simp
    then have "(2::real) ^ (a + 53) = 2 * 2 ^ (a + 52)" by (simp only: power_Suc)
    then show ?thesis by (simp only: times_divide_times_eq mult_1)
  qed
  finally show ?thesis .
qed


lemma binary64_error_below_two:
  "\<bar>x\<bar> < 2 \<Longrightarrow> \<bar>binary64 x - x\<bar> \<le> 1 / 9007199254740992"
  using binary64_error [of 0 x] by simp

lemma base64_binary64: "base64 tr e = binary64 (base tr e)"
  by (simp add: base64_def base_def)

lemma predatorPenalty64_binary64:
  "predatorPenalty64 tr e =
     binary64 (predatorStrength e *
       binary64 (if tr = ''Large'' then 0.3 else if tr = ''Small'' then 0.05 else 0.15))"
  by (simp add: predatorPenalty64_def)

lemma base_range: "7/10 \<le> base tr e \<and> base tr e \<le> 5/4"
  by (simp add: base_def)

lemma base_seed: "base tr \<lparr>seed = sd, predatorStrength = p\<rparr> = base tr \<lparr>seed = sd, predatorStrength = q\<rparr>"
  by (simp add: base_def)

lemma fitnessForTrait_exact:
  assumes "0 \<le> predatorStrength e" and "predatorStrength e \<le> 1"
  shows "fitnessForTrait tr e = base tr e - predatorPenalty tr e"
    and "1/2 \<le> base tr e - predatorPenalty tr e"
    and "base tr e - predatorPenalty tr e \<le> 5/4"
proof -
  show lo: "1/2 \<le> base tr e - predatorPenalty tr e"
    using assms by (auto simp: base_def predatorPenalty_def)
  show "base tr e - predatorPenalty tr e \<le> 5/4"
    using assms by (auto simp: base_def predatorPenalty_def)
  from lo show "fitnessForTrait tr e = base tr e - predatorPenalty tr e"
    by (simp add: fitnessForTrait_def max_def)
qed

lemma fitnessForTrait64_close:
  assumes "0 \<le> predatorStrength e" and "predatorStrength e \<le> 1"
  shows "\<bar>fitnessForTrait64 tr e - fitnessForTrait tr e\<bar> \<le> 1 / 2251799813685248"
proof -
  define p where "p = predatorStrength e"
  define c :: real where "c = (if tr = ''Large'' then 0.3 else if tr = ''Small'' then 0.05 else 0.15)"
  define C where "C = binary64 c"
  define b where "b = base tr e"
  define B where "B = binary64 b"
  define pen where "pen = binary64 (p * C)"
  define x where "x = B - pen"
  have p: "0 \<le> p" "p \<le> 1" using assms by (simp_all add: p_def)
  have c: "1/20 \<le> c" "c \<le> 3/10" by (simp_all add: c_def)
  have b: "7/10 \<le> b" "b \<le> 5/4" using base_range [of tr e] by (simp_all add: b_def)
  have eC: "\<bar>C - c\<bar> \<le> 1 / 9007199254740992"
    unfolding C_def using c by (intro binary64_error_below_two) simp
  have eB: "\<bar>B - b\<bar> \<le> 1 / 9007199254740992"
    unfolding B_def using b by (intro binary64_error_below_two) simp
  have C0: "0 \<le> C" unfolding C_def using c by (intro binary64_nonneg) simp
  have C1: "C \<le> 1" using eC c by linarith
  have z0: "0 \<le> p * C" using p C0 by simp
  have z1: "p * C \<le> 1" using p C0 C1 by (simp add: mult_le_one)
  have "\<bar>p * C - p * c\<bar> = p * \<bar>C - c\<bar>"
    using p by (simp add: abs_mult right_diff_distrib [symmetric])
  also have "\<dots> \<le> 1 * (1 / 9007199254740992)"
    using p eC by (intro mult_mono) simp_all
  finally have ez: "\<bar>p * C - p * c\<bar> \<le> 1 / 9007199254740992" by simp
  have epen: "\<bar>pen - p * C\<bar> \<le> 1 / 9007199254740992"
    unfolding pen_def using z0 z1 by (intro binary64_error_below_two) simp
  have ex: "1/2 \<le> b - p * c" "b - p * c \<le> 5/4"
    using fitnessForTrait_exact(2,3) [OF assms, of tr]
    by (simp_all add: b_def p_def c_def predatorPenalty_def)
  have xr: "\<bar>x - (b - p * c)\<bar> \<le> 3 / 9007199254740992"
    using eB ez epen unfolding x_def by linarith
  have x2: "\<bar>x\<bar> < 2" using xr ex by linarith
  have er: "\<bar>binary64 x - x\<bar> \<le> 1 / 9007199254740992"
    using x2 by (rule binary64_error_below_two)
  have r: "\<bar>binary64 x - (b - p * c)\<bar> \<le> 4 / 9007199254740992"
    using er xr by linarith
  have f: "\<bar>binary64 (1/10) - 1/10\<bar> \<le> 1 / 9007199254740992"
    by (intro binary64_error_below_two) simp
  have le: "binary64 (1/10) \<le> binary64 x"
    using f r ex by linarith
  have px: "predatorPenalty64 tr e = pen"
    unfolding pen_def C_def c_def p_def by (rule predatorPenalty64_binary64)
  have bx: "base64 tr e = B"
    unfolding B_def b_def by (rule base64_binary64)
  have "fitnessForTrait64 tr e = max (binary64 0.1) (binary64 x)"
    unfolding fitnessForTrait64_def px bx x_def ..
  with le have "fitnessForTrait64 tr e = binary64 x"
    by (simp add: max_def)
  moreover have "fitnessForTrait tr e = b - p * c"
    using fitnessForTrait_exact(1) [OF assms, of tr]
    by (simp add: b_def p_def c_def predatorPenalty_def)
  ultimately have "\<bar>fitnessForTrait64 tr e - fitnessForTrait tr e\<bar> \<le> 4 / 9007199254740992"
    using r by simp
  then show ?thesis by simp
qed

lemma binary64_literals:
  "binary64 1 = 1"
  "binary64 (1/10) = 7205759403792794 / 2 ^ 56"
  "binary64 (3/10) = 5404319552844595 / 2 ^ 54"
  "binary64 (1/20) = 7205759403792794 / 2 ^ 57"
  "binary64 (21/20) = 4728779608739021 / 2 ^ 52"
proof -
  show "binary64 1 = 1"
    using binary64_at [of 0 1 "2 ^ 52"] by simp
  show "binary64 (1/10) = 7205759403792794 / 2 ^ 56"
    using binary64_at [of 4 "1/10" 7205759403792794] by simp
  show "binary64 (3/10) = 5404319552844595 / 2 ^ 54"
    using binary64_at [of 2 "3/10" 5404319552844595] by simp
  show "binary64 (1/20) = 7205759403792794 / 2 ^ 57"
    using binary64_at [of 5 "1/20" 7205759403792794] by simp
  show "binary64 (21/20) = 4728779608739021 / 2 ^ 52"
    using binary64_at [of 0 "21/20" 4728779608739021] by simp
qed

lemma fitnessForTrait64_Large_mixed:
  "fitnessForTrait64 ''Large'' \<lparr>seed = ''mixed'', predatorStrength = p\<rparr>
     = max (7205759403792794 / 2 ^ 56) (binary64 (1 - binary64 (p * (5404319552844595 / 2 ^ 54))))"
  by (simp add: fitnessForTrait64_def base64_def predatorPenalty64_def binary64_literals)

lemma fitnessForTrait64_Small_mixed:
  "fitnessForTrait64 ''Small'' \<lparr>seed = ''mixed'', predatorStrength = p\<rparr>
     = max (7205759403792794 / 2 ^ 56)
         (binary64 (4728779608739021 / 2 ^ 52 - binary64 (p * (7205759403792794 / 2 ^ 57))))"
  by (simp add: fitnessForTrait64_def base64_def predatorPenalty64_def binary64_literals)

text \<open>
  The fitness of Large and of Small under mixed seeds at predator strength \<open>0\<close> and at
  \<open>1 / 2 ^ 70\<close>: the penalty is rounded away.
\<close>

lemma fitnessForTrait64_tiny:
  "fitnessForTrait64 ''Large'' \<lparr>seed = ''mixed'', predatorStrength = 0\<rparr> = 1"
  "fitnessForTrait64 ''Large'' \<lparr>seed = ''mixed'', predatorStrength = 1 / 2 ^ 70\<rparr> = 1"
  "fitnessForTrait64 ''Small'' \<lparr>seed = ''mixed'', predatorStrength = 0\<rparr>
     = 4728779608739021 / 2 ^ 52"
  "fitnessForTrait64 ''Small'' \<lparr>seed = ''mixed'', predatorStrength = 1 / 2 ^ 70\<rparr>
     = 4728779608739021 / 2 ^ 52"
proof -
  show "fitnessForTrait64 ''Large'' \<lparr>seed = ''mixed'', predatorStrength = 0\<rparr> = 1"
    by (simp add: fitnessForTrait64_Large_mixed binary64_zero binary64_literals)
  have penL: "binary64 (1 / 2 ^ 70 * (5404319552844595 / 2 ^ 54)) = 5404319552844595 / 2 ^ 124"
    using binary64_at [of 72 "1 / 2 ^ 70 * (5404319552844595 / 2 ^ 54)" 5404319552844595]
    by simp
  have "binary64 (1 - 5404319552844595 / 2 ^ 124) = 1"
    using binary64_at [of 1 "1 - 5404319552844595 / 2 ^ 124" "2 ^ 53"] by simp
  then show "fitnessForTrait64 ''Large'' \<lparr>seed = ''mixed'', predatorStrength = 1 / 2 ^ 70\<rparr> = 1"
    by (simp only: fitnessForTrait64_Large_mixed penL) simp
  have "binary64 (4728779608739021 / 2 ^ 52) = 4728779608739021 / 2 ^ 52"
    using binary64_at [of 0 "4728779608739021 / 2 ^ 52" 4728779608739021] by simp
  then show "fitnessForTrait64 ''Small'' \<lparr>seed = ''mixed'', predatorStrength = 0\<rparr>
      = 4728779608739021 / 2 ^ 52"
    by (simp add: fitnessForTrait64_Small_mixed binary64_zero)
  have penS: "binary64 (1 / 2 ^ 70 * (7205759403792794 / 2 ^ 57)) = 7205759403792794 / 2 ^ 127"
    using binary64_at [of 75 "1 / 2 ^ 70 * (7205759403792794 / 2 ^ 57)" 7205759403792794]
    by simp
  have "binary64 (4728779608739021 / 2 ^ 52 - 7205759403792794 / 2 ^ 127)
      = 4728779608739021 / 2 ^ 52"
    using binary64_at [of 0 "4728779608739021 / 2 ^ 52 - 7205759403792794 / 2 ^ 127"
        4728779608739021]
    by simp
  then show "fitnessForTrait64 ''Small'' \<lparr>seed = ''mixed'', predatorStrength = 1 / 2 ^ 70\<rparr>
      = 4728779608739021 / 2 ^ 52"
    by (simp only: fitnessForTrait64_Small_mixed penS) simp
qed

text \<open>
  The values the program computes under mixed seeds at the predator strengths \<open>0.2\<close> and
  \<open>0.6\<close> (as binary64 values): \<open>0.94\<close> and \<open>0.8200000000000001\<close> for Large, \<open>1.04\<close> and
  \<open>1.02\<close> for Small. Both subtractions for Large end on a tie. The drops between the two
  strengths are \<open>0.11999999999999988\<close> and \<open>0.020000000000000018\<close>.
\<close>

lemma fitnessForTrait64_scenarios:
  "fitnessForTrait64 ''Large'' \<lparr>seed = ''mixed'', predatorStrength = 7205759403792794 / 2 ^ 55\<rparr>
     = 8466767299456532 / 2 ^ 53"
  "fitnessForTrait64 ''Large'' \<lparr>seed = ''mixed'', predatorStrength = 5404319552844595 / 2 ^ 53\<rparr>
     = 7385903388887614 / 2 ^ 53"
  "fitnessForTrait64 ''Small'' \<lparr>seed = ''mixed'', predatorStrength = 7205759403792794 / 2 ^ 55\<rparr>
     = 4683743612465316 / 2 ^ 52"
  "fitnessForTrait64 ''Small'' \<lparr>seed = ''mixed'', predatorStrength = 5404319552844595 / 2 ^ 53\<rparr>
     = 4593671619917906 / 2 ^ 52"
proof -
  have a: "binary64 (7205759403792794 / 2 ^ 55 * (5404319552844595 / 2 ^ 54))
      = 8646911284551352 / 2 ^ 57"
    using binary64_at [of 5 "7205759403792794 / 2 ^ 55 * (5404319552844595 / 2 ^ 54)"
        8646911284551352]
    by simp
  have b: "binary64 (1 - 8646911284551352 / 2 ^ 57) = 8466767299456532 / 2 ^ 53"
    using binary64_at_tie [of 1 "1 - 8646911284551352 / 2 ^ 57" 8466767299456532] by simp
  show "fitnessForTrait64 ''Large'' \<lparr>seed = ''mixed'', predatorStrength = 7205759403792794 / 2 ^ 55\<rparr>
      = 8466767299456532 / 2 ^ 53"
    using b by (simp only: fitnessForTrait64_Large_mixed a) simp
  have c: "binary64 (5404319552844595 / 2 ^ 53 * (5404319552844595 / 2 ^ 54))
      = 6485183463413514 / 2 ^ 55"
    using binary64_at [of 3 "5404319552844595 / 2 ^ 53 * (5404319552844595 / 2 ^ 54)"
        6485183463413514]
    by simp
  have d: "binary64 (1 - 6485183463413514 / 2 ^ 55) = 7385903388887614 / 2 ^ 53"
    using binary64_at_tie [of 1 "1 - 6485183463413514 / 2 ^ 55" 7385903388887613] by simp
  show "fitnessForTrait64 ''Large'' \<lparr>seed = ''mixed'', predatorStrength = 5404319552844595 / 2 ^ 53\<rparr>
      = 7385903388887614 / 2 ^ 53"
    using d by (simp only: fitnessForTrait64_Large_mixed c) simp
  have e: "binary64 (7205759403792794 / 2 ^ 55 * (7205759403792794 / 2 ^ 57))
      = 5764607523034236 / 2 ^ 59"
    using binary64_at [of 7 "7205759403792794 / 2 ^ 55 * (7205759403792794 / 2 ^ 57)"
        5764607523034236]
    by simp
  have f: "binary64 (4728779608739021 / 2 ^ 52 - 5764607523034236 / 2 ^ 59)
      = 4683743612465316 / 2 ^ 52"
    using binary64_at [of 0 "4728779608739021 / 2 ^ 52 - 5764607523034236 / 2 ^ 59"
        4683743612465316]
    by simp
  show "fitnessForTrait64 ''Small'' \<lparr>seed = ''mixed'', predatorStrength = 7205759403792794 / 2 ^ 55\<rparr>
      = 4683743612465316 / 2 ^ 52"
    using f by (simp only: fitnessForTrait64_Small_mixed e) simp
  have g: "binary64 (5404319552844595 / 2 ^ 53 * (7205759403792794 / 2 ^ 57))
      = 8646911284551352 / 2 ^ 58"
    using binary64_at [of 6 "5404319552844595 / 2 ^ 53 * (7205759403792794 / 2 ^ 57)"
        8646911284551352]
    by simp
  have h: "binary64 (4728779608739021 / 2 ^ 52 - 8646911284551352 / 2 ^ 58)
      = 4593671619917906 / 2 ^ 52"
    using binary64_at [of 0 "4728779608739021 / 2 ^ 52 - 8646911284551352 / 2 ^ 58"
        4593671619917906]
    by simp
  show "fitnessForTrait64 ''Small'' \<lparr>seed = ''mixed'', predatorStrength = 5404319552844595 / 2 ^ 53\<rparr>
      = 4593671619917906 / 2 ^ 52"
    using h by (simp only: fitnessForTrait64_Small_mixed g) simp
qed

lemma fitnessForTrait_drop:
  assumes "0 \<le> p" and "p \<le> 1" and "0 \<le> q" and "q \<le> 1"
  shows "fitnessForTrait ''Large'' \<lparr>seed = sd, predatorStrength = p\<rparr>
           - fitnessForTrait ''Large'' \<lparr>seed = sd, predatorStrength = q\<rparr> = 3/10 * (q - p)"
    and "fitnessForTrait ''Small'' \<lparr>seed = sd, predatorStrength = p\<rparr>
           - fitnessForTrait ''Small'' \<lparr>seed = sd, predatorStrength = q\<rparr> = 1/20 * (q - p)"
proof -
  have e: "fitnessForTrait tr \<lparr>seed = sd, predatorStrength = r\<rparr>
      = base tr \<lparr>seed = sd, predatorStrength = r\<rparr>
        - predatorPenalty tr \<lparr>seed = sd, predatorStrength = r\<rparr>"
    if "0 \<le> r" "r \<le> 1" for tr r
    using fitnessForTrait_exact(1) [of "\<lparr>seed = sd, predatorStrength = r\<rparr>" tr] that by simp
  show "fitnessForTrait ''Large'' \<lparr>seed = sd, predatorStrength = p\<rparr>
      - fitnessForTrait ''Large'' \<lparr>seed = sd, predatorStrength = q\<rparr> = 3/10 * (q - p)"
    using assms by (simp add: e predatorPenalty_def base_seed [of _ sd p q] algebra_simps)
  show "fitnessForTrait ''Small'' \<lparr>seed = sd, predatorStrength = p\<rparr>
      - fitnessForTrait ''Small'' \<lparr>seed = sd, predatorStrength = q\<rparr> = 1/20 * (q - p)"
    using assms by (simp add: e predatorPenalty_def base_seed [of _ sd p q] algebra_simps)
qed

text \<open>
  Claim C9, as the code has it. With no predators, small seeds rank the traits Small,
  Medium, Large by fitness and large seeds rank them Large, Medium, Small, strictly. For
  a predator strength of \<open>[0, 1]\<close> the value the program computes is within \<open>1 / 2 ^ 51\<close> of
  the exact value, base minus predator strength times the penalty coefficient. So for any
  seed value and predator strengths \<open>p\<close>, \<open>q\<close> of \<open>[0, 1]\<close> with \<open>q\<close> at least \<open>1 / 2 ^ 45\<close>
  above \<open>p\<close>, the fitness of Large drops by \<open>0.3 * (q - p)\<close> and that of Small by
  \<open>0.05 * (q - p)\<close>, each up to \<open>1 / 2 ^ 50\<close>: Small drops strictly and Large drops strictly
  more.
\<close>

theorem fitnessForTrait64_orderings:
  "fitnessForTrait64 ''Small'' \<lparr>seed = ''small'', predatorStrength = 0\<rparr>
     > fitnessForTrait64 ''Medium'' \<lparr>seed = ''small'', predatorStrength = 0\<rparr>
   \<and> fitnessForTrait64 ''Medium'' \<lparr>seed = ''small'', predatorStrength = 0\<rparr>
     > fitnessForTrait64 ''Large'' \<lparr>seed = ''small'', predatorStrength = 0\<rparr>
   \<and> fitnessForTrait64 ''Large'' \<lparr>seed = ''large'', predatorStrength = 0\<rparr>
     > fitnessForTrait64 ''Medium'' \<lparr>seed = ''large'', predatorStrength = 0\<rparr>
   \<and> fitnessForTrait64 ''Medium'' \<lparr>seed = ''large'', predatorStrength = 0\<rparr>
     > fitnessForTrait64 ''Small'' \<lparr>seed = ''large'', predatorStrength = 0\<rparr>
   \<and> (0 \<le> p \<and> p \<le> 1 \<longrightarrow>
        \<bar>fitnessForTrait64 tr \<lparr>seed = sd, predatorStrength = p\<rparr>
          - fitnessForTrait tr \<lparr>seed = sd, predatorStrength = p\<rparr>\<bar> \<le> 1 / 2 ^ 51)
   \<and> (0 \<le> p \<and> q \<le> 1 \<and> p + 1 / 2 ^ 45 \<le> q \<longrightarrow>
        \<bar>(fitnessForTrait64 ''Large'' \<lparr>seed = sd, predatorStrength = p\<rparr>
            - fitnessForTrait64 ''Large'' \<lparr>seed = sd, predatorStrength = q\<rparr>)
          - 0.3 * (q - p)\<bar> \<le> 1 / 2 ^ 50
      \<and> \<bar>(fitnessForTrait64 ''Small'' \<lparr>seed = sd, predatorStrength = p\<rparr>
            - fitnessForTrait64 ''Small'' \<lparr>seed = sd, predatorStrength = q\<rparr>)
          - 0.05 * (q - p)\<bar> \<le> 1 / 2 ^ 50
      \<and> fitnessForTrait64 ''Large'' \<lparr>seed = sd, predatorStrength = p\<rparr>
          - fitnessForTrait64 ''Large'' \<lparr>seed = sd, predatorStrength = q\<rparr>
        > fitnessForTrait64 ''Small'' \<lparr>seed = sd, predatorStrength = p\<rparr>
          - fitnessForTrait64 ''Small'' \<lparr>seed = sd, predatorStrength = q\<rparr>
      \<and> fitnessForTrait64 ''Small'' \<lparr>seed = sd, predatorStrength = p\<rparr>
          - fitnessForTrait64 ''Small'' \<lparr>seed = sd, predatorStrength = q\<rparr> > 0)"
proof -
  have close: "\<bar>fitnessForTrait64 t \<lparr>seed = s, predatorStrength = r\<rparr>
      - fitnessForTrait t \<lparr>seed = s, predatorStrength = r\<rparr>\<bar> \<le> 1 / 2251799813685248"
    if "0 \<le> r" "r \<le> 1" for t s r
    using fitnessForTrait64_close [of "\<lparr>seed = s, predatorStrength = r\<rparr>" t] that by simp
  have exact:
    "fitnessForTrait ''Small'' \<lparr>seed = ''small'', predatorStrength = 0\<rparr> = 12/10"
    "fitnessForTrait ''Medium'' \<lparr>seed = ''small'', predatorStrength = 0\<rparr> = 1"
    "fitnessForTrait ''Large'' \<lparr>seed = ''small'', predatorStrength = 0\<rparr> = 8/10"
    "fitnessForTrait ''Large'' \<lparr>seed = ''large'', predatorStrength = 0\<rparr> = 125/100"
    "fitnessForTrait ''Medium'' \<lparr>seed = ''large'', predatorStrength = 0\<rparr> = 1"
    "fitnessForTrait ''Small'' \<lparr>seed = ''large'', predatorStrength = 0\<rparr> = 7/10"
    by (simp_all add: fitnessForTrait_def base_def predatorPenalty_def)
  have z: "(0::real) \<le> 0" "(0::real) \<le> 1" by simp_all
  have r1: "fitnessForTrait64 ''Small'' \<lparr>seed = ''small'', predatorStrength = 0\<rparr>
      > fitnessForTrait64 ''Medium'' \<lparr>seed = ''small'', predatorStrength = 0\<rparr>"
    using close [OF z, of "''Small''" "''small''"] close [OF z, of "''Medium''" "''small''"]
    unfolding exact by linarith
  have r2: "fitnessForTrait64 ''Medium'' \<lparr>seed = ''small'', predatorStrength = 0\<rparr>
      > fitnessForTrait64 ''Large'' \<lparr>seed = ''small'', predatorStrength = 0\<rparr>"
    using close [OF z, of "''Medium''" "''small''"] close [OF z, of "''Large''" "''small''"]
    unfolding exact by linarith
  have r3: "fitnessForTrait64 ''Large'' \<lparr>seed = ''large'', predatorStrength = 0\<rparr>
      > fitnessForTrait64 ''Medium'' \<lparr>seed = ''large'', predatorStrength = 0\<rparr>"
    using close [OF z, of "''Large''" "''large''"] close [OF z, of "''Medium''" "''large''"]
    unfolding exact by linarith
  have r4: "fitnessForTrait64 ''Medium'' \<lparr>seed = ''large'', predatorStrength = 0\<rparr>
      > fitnessForTrait64 ''Small'' \<lparr>seed = ''large'', predatorStrength = 0\<rparr>"
    using close [OF z, of "''Medium''" "''large''"] close [OF z, of "''Small''" "''large''"]
    unfolding exact by linarith
  have c: "0 \<le> p \<and> p \<le> 1 \<longrightarrow>
      \<bar>fitnessForTrait64 tr \<lparr>seed = sd, predatorStrength = p\<rparr>
        - fitnessForTrait tr \<lparr>seed = sd, predatorStrength = p\<rparr>\<bar> \<le> 1 / 2 ^ 51"
    using close [of p tr sd] by simp
  have d: "\<bar>(fitnessForTrait64 ''Large'' \<lparr>seed = sd, predatorStrength = p\<rparr>
            - fitnessForTrait64 ''Large'' \<lparr>seed = sd, predatorStrength = q\<rparr>)
          - 0.3 * (q - p)\<bar> \<le> 1 / 2 ^ 50
      \<and> \<bar>(fitnessForTrait64 ''Small'' \<lparr>seed = sd, predatorStrength = p\<rparr>
            - fitnessForTrait64 ''Small'' \<lparr>seed = sd, predatorStrength = q\<rparr>)
          - 0.05 * (q - p)\<bar> \<le> 1 / 2 ^ 50
      \<and> fitnessForTrait64 ''Large'' \<lparr>seed = sd, predatorStrength = p\<rparr>
          - fitnessForTrait64 ''Large'' \<lparr>seed = sd, predatorStrength = q\<rparr>
        > fitnessForTrait64 ''Small'' \<lparr>seed = sd, predatorStrength = p\<rparr>
          - fitnessForTrait64 ''Small'' \<lparr>seed = sd, predatorStrength = q\<rparr>
      \<and> fitnessForTrait64 ''Small'' \<lparr>seed = sd, predatorStrength = p\<rparr>
          - fitnessForTrait64 ''Small'' \<lparr>seed = sd, predatorStrength = q\<rparr> > 0"
    if h: "0 \<le> p \<and> q \<le> 1 \<and> p + 1 / 2 ^ 45 \<le> q"
  proof -
    from h have gap: "p + 1 / 35184372088832 \<le> q" by simp
    from h gap have b: "0 \<le> p" "p \<le> 1" "0 \<le> q" "q \<le> 1" by simp_all
    note dl = fitnessForTrait_drop(1) [OF b, of sd]
    note ds = fitnessForTrait_drop(2) [OF b, of sd]
    note lp = close [OF b(1,2), of "''Large''" sd]
    note lq = close [OF b(3,4), of "''Large''" sd]
    note sp = close [OF b(1,2), of "''Small''" sd]
    note sq = close [OF b(3,4), of "''Small''" sd]
    have e1: "\<bar>(fitnessForTrait64 ''Large'' \<lparr>seed = sd, predatorStrength = p\<rparr>
            - fitnessForTrait64 ''Large'' \<lparr>seed = sd, predatorStrength = q\<rparr>)
          - 3/10 * (q - p)\<bar> \<le> 1 / 1125899906842624"
      using dl lp lq by linarith
    have e2: "\<bar>(fitnessForTrait64 ''Small'' \<lparr>seed = sd, predatorStrength = p\<rparr>
            - fitnessForTrait64 ''Small'' \<lparr>seed = sd, predatorStrength = q\<rparr>)
          - 1/20 * (q - p)\<bar> \<le> 1 / 1125899906842624"
      using ds sp sq by linarith
    have l: "3/10 * (q - p) - 1 / 1125899906842624
        \<le> fitnessForTrait64 ''Large'' \<lparr>seed = sd, predatorStrength = p\<rparr>
          - fitnessForTrait64 ''Large'' \<lparr>seed = sd, predatorStrength = q\<rparr>"
      using e1 by linarith
    have u: "fitnessForTrait64 ''Small'' \<lparr>seed = sd, predatorStrength = p\<rparr>
          - fitnessForTrait64 ''Small'' \<lparr>seed = sd, predatorStrength = q\<rparr>
        \<le> 1/20 * (q - p) + 1 / 1125899906842624"
      using e2 by linarith
    have w: "1/20 * (q - p) - 1 / 1125899906842624
        \<le> fitnessForTrait64 ''Small'' \<lparr>seed = sd, predatorStrength = p\<rparr>
          - fitnessForTrait64 ''Small'' \<lparr>seed = sd, predatorStrength = q\<rparr>"
      using e2 by linarith
    have e3: "fitnessForTrait64 ''Large'' \<lparr>seed = sd, predatorStrength = p\<rparr>
          - fitnessForTrait64 ''Large'' \<lparr>seed = sd, predatorStrength = q\<rparr>
        > fitnessForTrait64 ''Small'' \<lparr>seed = sd, predatorStrength = p\<rparr>
          - fitnessForTrait64 ''Small'' \<lparr>seed = sd, predatorStrength = q\<rparr>"
      using l u gap by argo
    have e4: "fitnessForTrait64 ''Small'' \<lparr>seed = sd, predatorStrength = p\<rparr>
          - fitnessForTrait64 ''Small'' \<lparr>seed = sd, predatorStrength = q\<rparr> > 0"
      using w gap by argo
    from e1 e2 e3 e4 show ?thesis by simp
  qed
  from r1 r2 r3 r4 c d show ?thesis by blast
qed

theorem fitnessForTrait64_orderings_witness:
  "(0::real) \<le> 7205759403792794 / 2 ^ 55
   \<and> (5404319552844595 :: real) / 2 ^ 53 \<le> 1
   \<and> (7205759403792794 :: real) / 2 ^ 55 + 1 / 2 ^ 45 \<le> 5404319552844595 / 2 ^ 53
   \<and> fitnessForTrait64 ''Large'' \<lparr>seed = ''mixed'', predatorStrength = 7205759403792794 / 2 ^ 55\<rparr>
       - fitnessForTrait64 ''Large'' \<lparr>seed = ''mixed'', predatorStrength = 5404319552844595 / 2 ^ 53\<rparr>
     > fitnessForTrait64 ''Small'' \<lparr>seed = ''mixed'', predatorStrength = 7205759403792794 / 2 ^ 55\<rparr>
       - fitnessForTrait64 ''Small'' \<lparr>seed = ''mixed'', predatorStrength = 5404319552844595 / 2 ^ 53\<rparr>
   \<and> fitnessForTrait64 ''Small'' \<lparr>seed = ''mixed'', predatorStrength = 7205759403792794 / 2 ^ 55\<rparr>
       - fitnessForTrait64 ''Small'' \<lparr>seed = ''mixed'', predatorStrength = 5404319552844595 / 2 ^ 53\<rparr>
     > 0
   \<and> fitnessForTrait64 ''Large'' \<lparr>seed = ''mixed'', predatorStrength = 7205759403792794 / 2 ^ 55\<rparr>
       - fitnessForTrait64 ''Large'' \<lparr>seed = ''mixed'', predatorStrength = 5404319552844595 / 2 ^ 53\<rparr>
     = 1080863910568918 / 2 ^ 53
   \<and> fitnessForTrait64 ''Small'' \<lparr>seed = ''mixed'', predatorStrength = 7205759403792794 / 2 ^ 55\<rparr>
       - fitnessForTrait64 ''Small'' \<lparr>seed = ''mixed'', predatorStrength = 5404319552844595 / 2 ^ 53\<rparr>
     = 90071992547410 / 2 ^ 52"
proof -
  have h: "(0::real) \<le> 7205759403792794 / 2 ^ 55
      \<and> (5404319552844595 :: real) / 2 ^ 53 \<le> 1
      \<and> (7205759403792794 :: real) / 2 ^ 55 + 1 / 2 ^ 45 \<le> 5404319552844595 / 2 ^ 53"
    by simp
  note ord = fitnessForTrait64_orderings [where p = "7205759403792794 / 2 ^ 55"
      and q = "5404319552844595 / 2 ^ 53" and sd = "''mixed''" and tr = "''Large''"]
  have vl: "fitnessForTrait64 ''Large'' \<lparr>seed = ''mixed'', predatorStrength = 7205759403792794 / 2 ^ 55\<rparr>
      - fitnessForTrait64 ''Large'' \<lparr>seed = ''mixed'', predatorStrength = 5404319552844595 / 2 ^ 53\<rparr>
      = 1080863910568918 / 2 ^ 53"
    by (simp only: fitnessForTrait64_scenarios) (simp?)
  have vs: "fitnessForTrait64 ''Small'' \<lparr>seed = ''mixed'', predatorStrength = 7205759403792794 / 2 ^ 55\<rparr>
      - fitnessForTrait64 ''Small'' \<lparr>seed = ''mixed'', predatorStrength = 5404319552844595 / 2 ^ 53\<rparr>
      = 90071992547410 / 2 ^ 52"
    by (simp only: fitnessForTrait64_scenarios) (simp?)
  from ord h vl vs show ?thesis by blast
qed

text \<open>
  The claim as the specification words it has Large drop strictly faster than Small for
  any increase of the predator strength within \<open>[0, 1]\<close>. From \<open>0\<close> to \<open>1 / 2 ^ 70\<close>, under mixed
  seeds, the program returns the same fitness for Large, \<open>1\<close>, and the same for Small:
  neither drops.
\<close>

theorem fitnessForTrait64_tiny_increase_counterexample:
  "(0::real) < 1 / 2 ^ 70 \<and> (1::real) / 2 ^ 70 \<le> 1
   \<and> fitnessForTrait64 ''Large'' \<lparr>seed = ''mixed'', predatorStrength = 0\<rparr>
       - fitnessForTrait64 ''Large'' \<lparr>seed = ''mixed'', predatorStrength = 1 / 2 ^ 70\<rparr> = 0
   \<and> fitnessForTrait64 ''Small'' \<lparr>seed = ''mixed'', predatorStrength = 0\<rparr>
       - fitnessForTrait64 ''Small'' \<lparr>seed = ''mixed'', predatorStrength = 1 / 2 ^ 70\<rparr> = 0
   \<and> \<not> (fitnessForTrait64 ''Large'' \<lparr>seed = ''mixed'', predatorStrength = 0\<rparr>
          - fitnessForTrait64 ''Large'' \<lparr>seed = ''mixed'', predatorStrength = 1 / 2 ^ 70\<rparr>
        > fitnessForTrait64 ''Small'' \<lparr>seed = ''mixed'', predatorStrength = 0\<rparr>
          - fitnessForTrait64 ''Small'' \<lparr>seed = ''mixed'', predatorStrength = 1 / 2 ^ 70\<rparr>)"
  by (simp only: fitnessForTrait64_tiny) simp

subsection \<open>The floor of the fitness\<close>

text \<open>
  Claim C10. For every trait string, every seed string and every predator strength of
  \<open>[0, 1]\<close>, the base value minus the predator penalty is at least \<open>0.5\<close>: the floor of
  \<open>0.1\<close> is not what is returned, the fitness is the base value minus the penalty and lies
  in \<open>[0.5, 1.25]\<close>.
\<close>

theorem fitnessForTrait_floor_unreached:
  assumes "0 \<le> predatorStrength e" and "predatorStrength e \<le> 1"
  shows "0.5 \<le> base tr e - predatorPenalty tr e
         \<and> fitnessForTrait tr e = base tr e - predatorPenalty tr e
         \<and> 0.5 \<le> fitnessForTrait tr e \<and> fitnessForTrait tr e \<le> 1.25"
proof -
  have lo: "0.5 \<le> base tr e - predatorPenalty tr e"
    using assms by (auto simp: base_def predatorPenalty_def)
  have hi: "base tr e - predatorPenalty tr e \<le> 1.25"
    using assms by (auto simp: base_def predatorPenalty_def)
  from lo have eq: "fitnessForTrait tr e = base tr e - predatorPenalty tr e"
    by (simp add: fitnessForTrait_def max_def)
  from lo hi eq show ?thesis by simp
qed

theorem fitnessForTrait_floor_unreached_witness:
  "fitnessForTrait ''Large'' \<lparr>seed = ''small'', predatorStrength = 1\<rparr>
     = base ''Large'' \<lparr>seed = ''small'', predatorStrength = 1\<rparr>
       - predatorPenalty ''Large'' \<lparr>seed = ''small'', predatorStrength = 1\<rparr>
   \<and> 0.5 \<le> fitnessForTrait ''Large'' \<lparr>seed = ''small'', predatorStrength = 1\<rparr>
   \<and> fitnessForTrait ''Large'' \<lparr>seed = ''small'', predatorStrength = 1\<rparr> \<le> 1.25"
  using fitnessForTrait_floor_unreached [of "\<lparr>seed = ''small'', predatorStrength = 1\<rparr>" "''Large''"]
  by simp

subsection \<open>History\<close>

lemma bump_counts:
  "Small (foldl bump c pop) = Small c + length (filter (\<lambda>p. trait p = ''Small'') pop)
   \<and> Medium (foldl bump c pop) = Medium c + length (filter (\<lambda>p. trait p = ''Medium'') pop)
   \<and> Large (foldl bump c pop) = Large c + length (filter (\<lambda>p. trait p = ''Large'') pop)"
  by (induction pop arbitrary: c) (simp_all add: bump_def)

lemma traitCounts_filter:
  "traitCounts pop =
     \<lparr>Small = length (filter (\<lambda>p. trait p = ''Small'') pop),
      Medium = length (filter (\<lambda>p. trait p = ''Medium'') pop),
      Large = length (filter (\<lambda>p. trait p = ''Large'') pop)\<rparr>"
  using bump_counts [of "\<lparr>Small = 0, Medium = 0, Large = 0\<rparr>" pop]
  by (simp add: traitCounts_def)

lemma history_simulateGeneration:
  "history (fst (simulateGeneration rnd k s)) =
     history s @ [\<lparr>history_entry.generation = generation s,
                   counts = traitCounts (population s),
                   history_entry.env = env s\<rparr>]"
  by (simp add: simulateGeneration_def Let_def)

lemma history_simulateGenerations:
  "length (history (fst (simulateGenerations n rnd k s))) = length (history s) + n
   \<and> take (length (history s)) (history (fst (simulateGenerations n rnd k s))) = history s"
proof (induction n arbitrary: k s)
  case 0
  show ?case by simp
next
  case (Suc n)
  obtain s' k' where step: "simulateGeneration rnd k s = (s', k')"
    by (cases "simulateGeneration rnd k s")
  let ?t = "generationComplete s'"
  have h: "history ?t = history s @ [\<lparr>history_entry.generation = generation s,
      counts = traitCounts (population s), history_entry.env = env s\<rparr>]"
    using history_simulateGeneration [of rnd k s] step by (simp add: generationComplete_def)
  have len: "length (history ?t) = length (history s) + 1"
    by (simp add: h)
  have "take (length (history s)) (history (fst (simulateGenerations n rnd k' ?t)))
      = take (length (history s)) (take (length (history ?t)) (history (fst (simulateGenerations n rnd k' ?t))))"
    by (simp add: len min_def)
  also have "\<dots> = take (length (history s)) (history ?t)"
    using Suc.IH [of k' ?t] by simp
  also have "\<dots> = history s"
    by (simp add: h)
  finally show ?case
    using Suc.IH [of k' ?t] step len by simp
qed

text \<open>
  Claim C6. One call of \<open>simulateGeneration\<close> leaves the history it found as it is and
  puts one entry after it: the generation number before the increment, the trait counts
  of the population before the transition (for each trait the number of organisms that
  carry it) and the environment of the call. The length grows by one with each call, so
  by \<open>n\<close> over \<open>n\<close> successive steps, whose history still starts with the one before.
\<close>

theorem simulateGeneration_history_append:
  "history (fst (simulateGeneration rnd k s)) =
     history s @ [\<lparr>history_entry.generation = generation s,
                   counts = \<lparr>Small = length (filter (\<lambda>p. trait p = ''Small'') (population s)),
                             Medium = length (filter (\<lambda>p. trait p = ''Medium'') (population s)),
                             Large = length (filter (\<lambda>p. trait p = ''Large'') (population s))\<rparr>,
                   history_entry.env = env s\<rparr>]
   \<and> generation (fst (simulateGeneration rnd k s)) = generation s + 1
   \<and> length (history (fst (simulateGeneration rnd k s))) = length (history s) + 1
   \<and> take (length (history s)) (history (fst (simulateGeneration rnd k s))) = history s
   \<and> length (history (fst (simulateGenerations n rnd k s))) = length (history s) + n
   \<and> take (length (history s)) (history (fst (simulateGenerations n rnd k s))) = history s"
  using history_simulateGenerations [of n rnd k s]
  by (simp add: history_simulateGeneration traitCounts_filter)
    (simp add: simulateGeneration_def Let_def)

subsection \<open>Scenario presets\<close>

text \<open>
  Claim C8, as the code has it. \<open>quickScenario\<close> with the name \<open>High predators\<close> sets the
  environment to seed \<open>mixed\<close> and predator strength \<open>0.6\<close> (and the message to
  \<open>Scenario set: High predators\<close>). With a name that is none of the four presets the call
  returns as usual: it leaves the environment and every other cell but the message as
  they are, and sets the message to \<open>Scenario set: \<close> followed by the name.
\<close>

theorem quickScenario_presets:
  "quickScenario ''High predators'' s =
     Returned (s\<lparr>env := \<lparr>seed = ''mixed'', predatorStrength = 0.6\<rparr>,
                 message := ''Scenario set: High predators''\<rparr>)
   \<and> (name \<notin> set scenarioNames \<longrightarrow>
        quickScenario name s = Returned (s\<lparr>message := ''Scenario set: '' @ name\<rparr>))"
  by (simp add: quickScenario_def scenarioNames_def)

theorem quickScenario_presets_witness:
  "''Ice age'' \<notin> set scenarioNames
   \<and> quickScenario ''Ice age'' demo_state = Returned (demo_state\<lparr>message := ''Scenario set: Ice age''\<rparr>)"
proof -
  have n: "''Ice age'' \<notin> set scenarioNames" by (simp add: scenarioNames_def)
  show ?thesis using quickScenario_presets [of demo_state "''Ice age''"] n by simp
qed

text \<open>
  The claim as the specification words it asks for a failure on a name that is no preset.
  On the name \<open>Volcano\<close> the call returns; the state it returns differs from the one it
  was given in the message only.
\<close>

theorem quickScenario_unrecognized_counterexample:
  "''Volcano'' \<notin> set scenarioNames
   \<and> quickScenario ''Volcano'' demo_state
       = Returned (demo_state\<lparr>message := ''Scenario set: Volcano''\<rparr>)"
  by (simp add: quickScenario_def scenarioNames_def)

subsection \<open>Mutation\<close>

lemma at_index_thirds:
  assumes "0 \<le> u" and "u < 1"
  shows "at_index [a, b, c] \<lfloor>u * 3\<rfloor> = (if u < 1/3 then a else if u < 2/3 then b else c)"
proof -
  consider "u < 1/3" | "1/3 \<le> u" "u < 2/3" | "2/3 \<le> u"
    by linarith
  then show ?thesis
  proof cases
    case 1
    with assms have "\<lfloor>u * 3\<rfloor> = 0" by (intro floor_unique) simp_all
    with 1 show ?thesis by (simp add: at_index_def)
  next
    case 2
    then have "\<lfloor>u * 3\<rfloor> = 1" by (intro floor_unique) simp_all
    with 2 show ?thesis by (simp add: at_index_def)
  next
    case 3
    with assms have "\<lfloor>u * 3\<rfloor> = 2" by (intro floor_unique) simp_all
    with 3 show ?thesis by (simp add: at_index_def)
  qed
qed

lemma mutated_Small: "mutated ''Small'' u = (if u < 1/2 then ''Small'' else ''Medium'')"
  by (simp add: mutated_def)

lemma mutated_Large: "mutated ''Large'' u = (if u < 1/2 then ''Medium'' else ''Large'')"
  by (simp add: mutated_def)

lemma mutated_Medium:
  "0 \<le> u \<Longrightarrow> u < 1 \<Longrightarrow>
   mutated ''Medium'' u = (if u < 1/3 then ''Small'' else if u < 2/3 then ''Medium'' else ''Large'')"
  by (simp add: mutated_def at_index_thirds)

lemma trait_breed:
  "trait (fst (breed p0 pool rnd k)) =
     (if rnd (k + 1) < 0.06
      then mutated (trait (walk (rnd k * totalScore pool) 0 p0 pool)) (rnd (k + 2))
      else trait (walk (rnd k * totalScore pool) 0 p0 pool))"
  by (simp add: breed_def Let_def)

text \<open>
  Claim C5. Let \<open>parent\<close> be the parent that a reproduction draw selects and \<open>child\<close> the
  offspring it pushes. The offspring mutates exactly when the draw \<open>rnd (k + 1)\<close> lies
  below \<open>0.06\<close>, an interval of length \<open>0.06\<close> of the unit interval; without mutation the
  child has the parent's trait. With mutation, on the draw \<open>u = rnd (k + 2)\<close>: a Small
  parent yields Small for \<open>u\<close> in the lower half and Medium in the upper half, a Medium
  parent yields Small, Medium, Large on the three thirds, a Large parent yields Medium on
  the lower half and Large on the upper half. So a Small parent never has a Large child
  and a Large parent never has a Small child. (Probabilities are read as the lengths of
  the intervals of the uniform draws.)
\<close>

theorem mutation_asymmetric_walk:
  assumes "unit_draws rnd"
  shows "let parent = walk (rnd k * totalScore pool) 0 p0 pool;
             child = fst (breed p0 pool rnd k);
             mutate = (rnd (k + 1) < 0.06);
             u = rnd (k + 2)
         in (\<not> mutate \<longrightarrow> trait child = trait parent)
          \<and> (mutate \<and> trait parent = ''Small'' \<longrightarrow>
               trait child = (if u < 1/2 then ''Small'' else ''Medium''))
          \<and> (mutate \<and> trait parent = ''Medium'' \<longrightarrow>
               trait child = (if u < 1/3 then ''Small'' else if u < 2/3 then ''Medium'' else ''Large''))
          \<and> (mutate \<and> trait parent = ''Large'' \<longrightarrow>
               trait child = (if u < 1/2 then ''Medium'' else ''Large''))
          \<and> (trait parent = ''Small'' \<longrightarrow> trait child \<noteq> ''Large'')
          \<and> (trait parent = ''Large'' \<longrightarrow> trait child \<noteq> ''Small'')"
proof -
  from assms have u: "\<And>n. 0 \<le> rnd n" "\<And>n. rnd n < 1"
    by (simp_all add: unit_draws_def)
  show ?thesis
    unfolding Let_def trait_breed
    by (simp add: mutated_Small mutated_Large mutated_Medium u)
qed

lemma unit_draws_demo_rnd: "unit_draws demo_rnd"
  by (simp add: unit_draws_def demo_rnd_def)

theorem mutation_asymmetric_walk_witness:
  "unit_draws demo_rnd
   \<and> demo_rnd 1 < 0.06
   \<and> trait (fst (breed \<lparr>oid = 0.33, trait = ''Medium'', energy = 0, score = 1\<rparr>
                      [\<lparr>oid = 0.33, trait = ''Medium'', energy = 0, score = 1\<rparr>] demo_rnd 0))
       = ''Medium''"
proof -
  let ?p = "\<lparr>oid = 0.33, trait = ''Medium'', energy = 0, score = 1\<rparr>"
  have w: "walk (demo_rnd 0 * totalScore [?p]) 0 ?p [?p] = ?p"
    by (simp add: Let_def)
  have d: "demo_rnd (Suc 0) = 0.05" "demo_rnd (Suc (Suc 0)) = 0.4"
    by (simp_all add: demo_rnd_def)
  note th = mutation_asymmetric_walk [OF unit_draws_demo_rnd, of 0 "[?p]" ?p, unfolded Let_def w]
  from th show ?thesis
    using unit_draws_demo_rnd by (simp add: d)
qed

subsection \<open>Scoring and resource-limited survival\<close>

lemma length_scoreAll: "length (fst (scoreAll e pop rnd k)) = length pop"
  by (induction pop arbitrary: k) (simp_all add: split_beta)

lemma truncate_scoreAll: "map organism.truncate (fst (scoreAll e pop rnd k)) = pop"
proof (induction pop arbitrary: k)
  case Nil
  show ?case by simp
next
  case (Cons org orgs)
  then show ?case
    by (simp add: split_beta scoreOne_def Let_def organism.defs)
qed

lemma feed_take: "feed n ps = take n ps"
  by (induction ps arbitrary: n) (simp_all add: take_Cons')

lemma sorted_sortByScore: "sorted_wrt (\<lambda>a b. score a \<ge> score b) (sortByScore ps)"
proof -
  have "sorted (map (\<lambda>p. - score p) (sort_key (\<lambda>p. - score p) ps))"
    by (rule sorted_sort_key)
  then show ?thesis
    by (simp add: sortByScore_def sorted_wrt_map)
qed

lemma mset_sortByScore: "mset (sortByScore ps) = mset ps"
  by (simp add: sortByScore_def)

lemma stable_sortByScore:
  "filter (\<lambda>p. score p = c) (sortByScore ps) = filter (\<lambda>p. score p = c) ps"
  using sort_key_stable [of "\<lambda>p. - score p" "- c" ps] by (simp add: sortByScore_def)

lemma fst_scored: "fst (scored rnd k s) = sortByScore (fst (scoreAll (env s) (population s) rnd k))"
  by (simp add: scored_def split_beta)

lemma fst_survivors: "fst (survivors rnd k s) = take (foodPerGen s) (fst (scored rnd k s))"
  by (simp add: survivors_def split_beta feed_take)

lemma length_scored: "length (fst (scored rnd k s)) = length (population s)"
  by (simp add: fst_scored sortByScore_def length_scoreAll)

text \<open>
  Claim C3. The scored population, each organism with its score added, is put in
  descending order of score by a stable sort (a permutation of the scored organisms,
  equal scores in their earlier order). The survivors of the food stage are its first
  \<open>min foodPerGen (length population)\<close> members. So fewer than \<open>foodPerGen\<close> survive
  exactly when the population is smaller than \<open>foodPerGen\<close>, and everyone survives when
  \<open>foodPerGen\<close> is at least the size of the population.
\<close>

theorem survivors_top_scorers:
  "fst (survivors rnd k s)
     = take (min (foodPerGen s) (length (population s))) (fst (scored rnd k s))
   \<and> length (fst (survivors rnd k s)) = min (foodPerGen s) (length (population s))
   \<and> sorted_wrt (\<lambda>a b. score a \<ge> score b) (fst (scored rnd k s))
   \<and> mset (fst (scored rnd k s)) = mset (fst (scoreAll (env s) (population s) rnd k))
   \<and> filter (\<lambda>p. score p = c) (fst (scored rnd k s))
       = filter (\<lambda>p. score p = c) (fst (scoreAll (env s) (population s) rnd k))
   \<and> map organism.truncate (fst (scoreAll (env s) (population s) rnd k)) = population s
   \<and> (length (fst (survivors rnd k s)) < foodPerGen s \<longleftrightarrow> length (population s) < foodPerGen s)
   \<and> (length (population s) \<le> foodPerGen s \<longrightarrow> fst (survivors rnd k s) = fst (scored rnd k s))"
proof -
  have len: "length (fst (scored rnd k s)) = length (population s)"
    by (rule length_scored)
  have "take (foodPerGen s) (fst (scored rnd k s))
      = take (min (foodPerGen s) (length (population s))) (fst (scored rnd k s))"
    using len by (simp add: min_def)
  then have a: "fst (survivors rnd k s)
      = take (min (foodPerGen s) (length (population s))) (fst (scored rnd k s))"
    by (simp add: fst_survivors)
  have b: "length (fst (survivors rnd k s)) = min (foodPerGen s) (length (population s))"
    by (simp add: fst_survivors len)
  have c: "sorted_wrt (\<lambda>a b. score a \<ge> score b) (fst (scored rnd k s))"
    by (simp add: fst_scored sorted_sortByScore)
  have d: "mset (fst (scored rnd k s)) = mset (fst (scoreAll (env s) (population s) rnd k))"
    by (simp add: fst_scored mset_sortByScore)
  have e: "filter (\<lambda>p. score p = c) (fst (scored rnd k s))
       = filter (\<lambda>p. score p = c) (fst (scoreAll (env s) (population s) rnd k))"
    by (simp add: fst_scored stable_sortByScore)
  have f: "length (fst (survivors rnd k s)) < foodPerGen s \<longleftrightarrow> length (population s) < foodPerGen s"
    by (auto simp: b min_def)
  have g: "length (population s) \<le> foodPerGen s \<longrightarrow> fst (survivors rnd k s) = fst (scored rnd k s)"
    by (simp add: fst_survivors len)
  from a b c d e f g show ?thesis
    by (simp only: truncate_scoreAll simp_thms)
qed

theorem survivors_top_scorers_witness:
  "length (population (demo_state\<lparr>foodPerGen := 5\<rparr>)) \<le> foodPerGen (demo_state\<lparr>foodPerGen := 5\<rparr>)
   \<and> fst (survivors demo_rnd 0 (demo_state\<lparr>foodPerGen := 5\<rparr>))
       = fst (scored demo_rnd 0 (demo_state\<lparr>foodPerGen := 5\<rparr>))
   \<and> length (fst (survivors demo_rnd 0 demo_state)) = 2"
proof -
  have d: "length (population demo_state) = 3" "foodPerGen demo_state = 2"
    by (simp_all add: demo_state_def)
  have hyp: "length (population (demo_state\<lparr>foodPerGen := 5\<rparr>))
      \<le> foodPerGen (demo_state\<lparr>foodPerGen := 5\<rparr>)"
    by (simp add: d)
  note plenty = survivors_top_scorers [where rnd = demo_rnd and k = 0 and c = 0
      and s = "demo_state\<lparr>foodPerGen := 5\<rparr>"]
  from plenty hyp have a: "fst (survivors demo_rnd 0 (demo_state\<lparr>foodPerGen := 5\<rparr>))
      = fst (scored demo_rnd 0 (demo_state\<lparr>foodPerGen := 5\<rparr>))"
    by blast
  note scarce = survivors_top_scorers [where rnd = demo_rnd and k = 0 and c = 0 and s = demo_state]
  from scarce have "length (fst (survivors demo_rnd 0 demo_state))
      = min (foodPerGen demo_state) (length (population demo_state))"
    by blast
  then have b: "length (fst (survivors demo_rnd 0 demo_state)) = 2"
    by (simp add: d)
  from hyp a b show ?thesis by blast
qed

subsection \<open>Roulette-wheel parent selection\<close>

lemma foldl_score: "foldl (\<lambda>s p. s + score p) a ps = a + sum_list (map score ps)"
  by (induction ps arbitrary: a) simp_all

lemma totalScore_sum_list: "totalScore pool = sum_list (map score pool)"
  by (simp add: totalScore_def foldl_score)

lemma walk_first_reaching:
  assumes "ps \<noteq> []" and "pick \<le> acc + sum_list (map score ps)"
  shows "\<exists>i<length ps. walk pick acc d ps = ps ! i
           \<and> pick \<le> acc + sum_list (map score (take (Suc i) ps))
           \<and> (\<forall>m<i. acc + sum_list (map score (take (Suc m) ps)) < pick)"
  using assms
proof (induction ps arbitrary: acc)
  case Nil
  then show ?case by simp
next
  case (Cons p ps)
  show ?case
  proof (cases "pick \<le> acc + score p")
    case True
    then have "walk pick acc d (p # ps) = (p # ps) ! 0
        \<and> pick \<le> acc + sum_list (map score (take (Suc 0) (p # ps)))
        \<and> (\<forall>m<0. acc + sum_list (map score (take (Suc m) (p # ps))) < pick)"
      by (simp add: Let_def)
    then show ?thesis by blast
  next
    case False
    with Cons.prems have ne: "ps \<noteq> []" by auto
    from Cons.prems have le: "pick \<le> (acc + score p) + sum_list (map score ps)"
      by (simp add: add.assoc)
    from Cons.IH [OF ne le] obtain i where i: "i < length ps"
      and w: "walk pick (acc + score p) d ps = ps ! i"
      and r: "pick \<le> (acc + score p) + sum_list (map score (take (Suc i) ps))"
      and b: "\<forall>m<i. (acc + score p) + sum_list (map score (take (Suc m) ps)) < pick"
      by blast
    have "walk pick acc d (p # ps) = (p # ps) ! Suc i"
      using False w by (simp add: Let_def)
    moreover have "pick \<le> acc + sum_list (map score (take (Suc (Suc i)) (p # ps)))"
      using r by (simp add: add.assoc)
    moreover have "\<forall>m<Suc i. acc + sum_list (map score (take (Suc m) (p # ps))) < pick"
    proof (intro allI impI)
      fix m assume m: "m < Suc i"
      show "acc + sum_list (map score (take (Suc m) (p # ps))) < pick"
      proof (cases m)
        case 0
        with False show ?thesis by simp
      next
        case (Suc m')
        with m have "m' < i" by simp
        with b have "(acc + score p) + sum_list (map score (take (Suc m') ps)) < pick"
          by blast
        with Suc show ?thesis by (simp add: add.assoc)
      qed
    qed
    moreover have "Suc i < length (p # ps)" using i by simp
    ultimately show ?thesis by blast
  qed
qed

lemma score_scoreOne:
  assumes "0 \<le> u"
  shows "0.07 \<le> score (scoreOne e org u)"
proof -
  have f: "0.1 \<le> fitnessForTrait (trait org) e" by (rule fitnessForTrait_floor)
  have n: "0.7 \<le> 0.7 + u * 0.6" using assms by simp
  have "0.1 * 0.7 \<le> fitnessForTrait (trait org) e * (0.7 + u * 0.6)"
    using f n by (intro mult_mono) simp_all
  then show ?thesis by (simp add: scoreOne_def Let_def)
qed

lemma scores_scoreAll:
  assumes "\<And>n. 0 \<le> rnd n"
  shows "list_all (\<lambda>p. 0.07 \<le> score p) (fst (scoreAll e pop rnd k))"
proof (induction pop arbitrary: k)
  case Nil
  show ?case by simp
next
  case (Cons org orgs)
  have "0.07 \<le> score (scoreOne e org (rnd k))"
    by (rule score_scoreOne) (rule assms)
  with Cons.IH [of "k + 1"] show ?case
    by (simp add: split_beta)
qed

lemma set_predation: "set (fst (predation e ps rnd k)) \<subseteq> set ps"
  by (induction ps arbitrary: k) (auto simp: split_beta)

lemma set_afterPredation:
  "set (fst (afterPredation rnd k s)) \<subseteq> set (fst (scoreAll (env s) (population s) rnd k))"
proof -
  have "set (fst (afterPredation rnd k s)) \<subseteq> set (fst (survivors rnd k s))"
    by (simp add: afterPredation_def split_beta set_predation)
  also have "\<dots> \<subseteq> set (fst (scored rnd k s))"
    by (simp add: fst_survivors set_take_subset)
  also have "\<dots> = set (fst (scoreAll (env s) (population s) rnd k))"
    by (simp add: fst_scored sortByScore_def)
  finally show ?thesis .
qed

lemma scores_afterPredation:
  assumes "unit_draws rnd"
  shows "list_all (\<lambda>p. 0.07 \<le> score p) (fst (afterPredation rnd k s))"
proof -
  from assms have "\<And>n. 0 \<le> rnd n" by (simp add: unit_draws_def)
  then have "list_all (\<lambda>p. 0.07 \<le> score p) (fst (scoreAll (env s) (population s) rnd k))"
    by (rule scores_scoreAll)
  with set_afterPredation [of rnd k s] show ?thesis
    by (auto simp: list_all_iff)
qed

lemma sum_list_scores_pos:
  "ps \<noteq> [] \<Longrightarrow> list_all (\<lambda>p. 0.07 \<le> score p) ps \<Longrightarrow> 0 < sum_list (map score ps)"
proof (induction ps)
  case Nil
  then show ?case by simp
next
  case (Cons p ps)
  then have "0 \<le> sum_list (map score ps)"
    by (cases ps) auto
  with Cons.prems show ?case by simp
qed

lemma demo_afterPredation:
  "afterPredation demo_rnd 0 demo_state =
     ([\<lparr>oid = 0.11, trait = ''Small'', energy = 0, score = 806 / 625\<rparr>,
       \<lparr>oid = 0.33, trait = ''Medium'', energy = 0, score = 5029 / 5000\<rparr>], 5)"
  by (simp add: afterPredation_def survivors_def scored_def sortByScore_def demo_state_def
      demo_rnd_def scoreOne_def fitnessForTrait_def base_def predatorPenalty_def Let_def)

subsection \<open>Reproduction and replenishment\<close>

lemma reproduce_empty_pool: "reproduce sz [] rnd off k = (off, k)"
  by (subst reproduce.simps) simp

lemma reproduce_full: "\<not> length off < sz \<Longrightarrow> reproduce sz pool rnd off k = (off, k)"
  by (subst reproduce.simps) simp

lemma reproduce_step:
  "length off < sz \<Longrightarrow>
   reproduce sz (p0 # rest) rnd off k =
     reproduce sz (p0 # rest) rnd (off @ [fst (breed p0 (p0 # rest) rnd k)])
       (snd (breed p0 (p0 # rest) rnd k))"
  by (subst reproduce.simps) simp

lemma length_reproduce:
  "length (fst (reproduce sz pool rnd off k)) = (if pool = [] then length off else max sz (length off))"
proof (induction sz pool rnd off k rule: reproduce.induct)
  case (1 sz pool rnd off k)
  show ?case
  proof (cases "length off < sz")
    case False
    then show ?thesis by (simp add: reproduce_full max_def)
  next
    case True
    show ?thesis
    proof (cases pool)
      case Nil
      then show ?thesis by (simp add: reproduce_empty_pool)
    next
      case (Cons p0 rest)
      from "1.IH" [OF True Cons] True Cons show ?thesis
        by (simp add: reproduce_step max_def)
    qed
  qed
qed

lemma walk_member: "walk pick acc d ps \<in> insert d (set ps)"
proof (induction ps arbitrary: acc)
  case Nil
  show ?case by simp
next
  case (Cons p ps)
  from Cons.IH [of "acc + score p"] show ?case
    by (auto simp: Let_def)
qed

lemma mutated_valid:
  assumes "tr \<in> set TRAITS" and "0 \<le> u" and "u < 1"
  shows "mutated tr u \<in> set TRAITS"
proof -
  from assms(1) consider "tr = ''Small''" | "tr = ''Medium''" | "tr = ''Large''"
    by (auto simp: TRAITS_def)
  then show ?thesis
  proof cases
    case 1
    then show ?thesis by (simp add: mutated_Small TRAITS_def)
  next
    case 2
    then show ?thesis by (simp add: mutated_Medium [OF assms(2,3)] TRAITS_def)
  next
    case 3
    then show ?thesis by (simp add: mutated_Large TRAITS_def)
  qed
qed

lemma breed_valid:
  assumes "unit_draws rnd" and "list_all (\<lambda>p. trait p \<in> set TRAITS) (p0 # rest)"
  shows "trait (fst (breed p0 (p0 # rest) rnd k)) \<in> set TRAITS"
proof -
  let ?parent = "walk (rnd k * totalScore (p0 # rest)) 0 p0 (p0 # rest)"
  have "?parent \<in> set (p0 # rest)"
    using walk_member [of "rnd k * totalScore (p0 # rest)" 0 p0 "p0 # rest"] by simp
  with assms(2) have v: "trait ?parent \<in> set TRAITS"
    unfolding list_all_iff by blast
  from assms(1) have u: "0 \<le> rnd (k + 2)" "rnd (k + 2) < 1"
    by (simp_all add: unit_draws_def)
  show ?thesis
    unfolding trait_breed using v mutated_valid [OF v u] by simp
qed

lemma reproduce_valid:
  assumes "unit_draws rnd" and "list_all (\<lambda>p. trait p \<in> set TRAITS) pool"
    and "list_all (\<lambda>p. trait p \<in> set TRAITS) off"
  shows "list_all (\<lambda>p. trait p \<in> set TRAITS) (fst (reproduce sz pool rnd off k))"
  using assms
proof (induction sz pool rnd off k rule: reproduce.induct)
  case (1 sz pool rnd off k)
  show ?case
  proof (cases "length off < sz")
    case False
    with "1.prems" show ?thesis by (simp add: reproduce_full)
  next
    case True
    show ?thesis
    proof (cases pool)
      case Nil
      with "1.prems" show ?thesis by (simp add: reproduce_empty_pool)
    next
      case (Cons p0 rest)
      have "trait (fst (breed p0 pool rnd k)) \<in> set TRAITS"
        using breed_valid [of rnd p0 rest k] "1.prems"(1,2) Cons by simp
      with "1.prems"(3)
      have "list_all (\<lambda>p. trait p \<in> set TRAITS) (off @ [fst (breed p0 pool rnd k)])"
        by simp
      from "1.IH" [OF True Cons "1.prems"(1,2) this] True Cons show ?thesis
        by (simp add: reproduce_step)
    qed
  qed
qed

lemma length_randomPopulation: "length (fst (randomPopulation n rnd k)) = n"
  by (induction n arbitrary: k) (simp_all add: split_beta Let_def)

lemma randomPopulation_valid:
  assumes "unit_draws rnd"
  shows "list_all (\<lambda>p. trait p \<in> set TRAITS) (fst (randomPopulation n rnd k))"
proof (induction n arbitrary: k)
  case 0
  show ?case by simp
next
  case (Suc n)
  from assms have u: "0 \<le> rnd (k + 1)" "rnd (k + 1) < 1"
    by (simp_all add: unit_draws_def)
  have "at_index TRAITS \<lfloor>rnd (k + 1) * real (length TRAITS)\<rfloor> \<in> set TRAITS"
    using at_index_thirds [OF u, of "''Small''" "''Medium''" "''Large''"]
    by (simp add: TRAITS_def)
  with Suc.IH [of "k + 2"] show ?case
    by (simp add: split_beta Let_def)
qed

lemma traits_scoreAll:
  "list_all (\<lambda>p. trait p \<in> set TRAITS) pop \<Longrightarrow>
   list_all (\<lambda>p. trait p \<in> set TRAITS) (fst (scoreAll e pop rnd k))"
  by (induction pop arbitrary: k) (simp_all add: split_beta scoreOne_def Let_def)

lemma traits_afterPredation:
  assumes "list_all (\<lambda>p. trait p \<in> set TRAITS) (population s)"
  shows "list_all (\<lambda>p. trait p \<in> set TRAITS) (fst (afterPredation rnd k s))"
  using traits_scoreAll [OF assms, of "env s" rnd k] set_afterPredation [of rnd k s]
  by (auto simp: list_all_iff)

lemma fst_offspring:
  "fst (offspring rnd k s)
     = fst (reproduce (populationSize s) (fst (afterPredation rnd k s)) rnd []
              (snd (afterPredation rnd k s)))"
  by (simp add: offspring_def split_beta)

lemma length_offspring:
  "length (fst (offspring rnd k s))
     = (if fst (afterPredation rnd k s) = [] then 0 else populationSize s)"
  by (simp add: fst_offspring length_reproduce)

lemma offspring_valid:
  assumes "unit_draws rnd" and "list_all (\<lambda>p. trait p \<in> set TRAITS) (population s)"
  shows "list_all (\<lambda>p. trait p \<in> set TRAITS) (fst (offspring rnd k s))"
  unfolding fst_offspring
  by (rule reproduce_valid [OF assms(1) traits_afterPredation [OF assms(2)]]) simp

lemma fst_newPop:
  "fst (newPop rnd k s) =
     (if length (fst (offspring rnd k s)) < populationSize s
      then fst (offspring rnd k s)
           @ fst (randomPopulation (populationSize s - length (fst (offspring rnd k s))) rnd
                    (snd (offspring rnd k s)))
      else fst (offspring rnd k s))"
  by (simp add: newPop_def split_beta)

lemma length_newPop: "length (fst (newPop rnd k s)) = populationSize s"
  by (simp add: fst_newPop length_randomPopulation length_offspring)

lemma newPop_valid:
  assumes "unit_draws rnd" and "list_all (\<lambda>p. trait p \<in> set TRAITS) (population s)"
  shows "list_all (\<lambda>p. trait p \<in> set TRAITS) (fst (newPop rnd k s))"
  using offspring_valid [OF assms, of k] randomPopulation_valid [OF assms(1)]
  by (simp add: fst_newPop)

lemma population_simulateGeneration:
  "population (fst (simulateGeneration rnd k s)) = fst (newPop rnd k s)"
  by (simp add: simulateGeneration_def Let_def)

lemma populationSize_simulateGeneration:
  "populationSize (fst (simulateGeneration rnd k s)) = populationSize s"
  by (simp add: simulateGeneration_def Let_def)

lemma message_simulateGeneration:
  "message (fst (simulateGeneration rnd k s)) =
     (if weakened rnd k s
      then ''Simulating generation... Population weakened; random immigrants arrived.''
      else ''Simulating generation...'')"
  by (simp add: simulateGeneration_def Let_def)

text \<open>
  Claim C7. When reproduction ends with fewer offspring than \<open>populationSize\<close>, which
  happens only with an empty pool after predation and then with no offspring at all, the
  new population is the offspring followed by \<open>populationSize - length offspring\<close>
  organisms of \<open>randomPopulation\<close>; it has exactly \<open>populationSize\<close> members, the
  immigrants carry traits of the trait set, and the step ends as every step does, with
  the message \<open>Simulating generation... Population weakened; random immigrants arrived.\<close>
\<close>

theorem replenishment_pads_population:
  assumes "unit_draws rnd"
    and "offspring rnd k s = (off, k')"
    and "length off < populationSize s"
  shows "fst (afterPredation rnd k s) = [] \<and> off = []
       \<and> population (fst (simulateGeneration rnd k s))
           = off @ fst (randomPopulation (populationSize s - length off) rnd k')
       \<and> list_all (\<lambda>p. trait p \<in> set TRAITS)
           (fst (randomPopulation (populationSize s - length off) rnd k'))
       \<and> length (population (fst (simulateGeneration rnd k s))) = populationSize s
       \<and> message (fst (simulateGeneration rnd k s))
           = ''Simulating generation... Population weakened; random immigrants arrived.''"
proof -
  from assms(2) have o: "fst (offspring rnd k s) = off" "snd (offspring rnd k s) = k'"
    by simp_all
  have len: "length off = (if fst (afterPredation rnd k s) = [] then 0 else populationSize s)"
    using length_offspring [of rnd k s] o by simp
  with assms(3) have e: "fst (afterPredation rnd k s) = []"
    by (simp split: if_splits)
  with len have n: "off = []" by simp
  have w: "weakened rnd k s"
    using assms(3) o by (simp add: weakened_def)
  have p: "population (fst (simulateGeneration rnd k s))
      = off @ fst (randomPopulation (populationSize s - length off) rnd k')"
    using assms(3) o by (simp add: population_simulateGeneration fst_newPop)
  have v: "list_all (\<lambda>p. trait p \<in> set TRAITS)
      (fst (randomPopulation (populationSize s - length off) rnd k'))"
    by (rule randomPopulation_valid [OF assms(1)])
  have l: "length (population (fst (simulateGeneration rnd k s))) = populationSize s"
    by (simp add: population_simulateGeneration length_newPop)
  have m: "message (fst (simulateGeneration rnd k s))
      = ''Simulating generation... Population weakened; random immigrants arrived.''"
    using w by (simp add: message_simulateGeneration)
  from e n p v l m show ?thesis by blast
qed

lemma unit_draws_zero: "unit_draws (\<lambda>n. 0)"
  by (simp add: unit_draws_def)

lemma demo_collapse: "offspring (\<lambda>n. 0) 0 demo_state = ([], 5)"
  by (simp add: offspring_def afterPredation_def survivors_def scored_def sortByScore_def
      demo_state_def scoreOne_def fitnessForTrait_def base_def predatorPenalty_def Let_def
      reproduce_empty_pool)

theorem replenishment_pads_population_witness:
  "unit_draws (\<lambda>n. 0)
   \<and> offspring (\<lambda>n. 0) 0 demo_state = ([], 5)
   \<and> length ([] :: organism list) < populationSize demo_state
   \<and> length (population (fst (simulateGeneration (\<lambda>n. 0) 0 demo_state))) = populationSize demo_state
   \<and> message (fst (simulateGeneration (\<lambda>n. 0) 0 demo_state))
       = ''Simulating generation... Population weakened; random immigrants arrived.''"
proof -
  have short: "length ([] :: organism list) < populationSize demo_state"
    by (simp add: demo_state_def)
  note pad = replenishment_pads_population [OF unit_draws_zero demo_collapse short]
  from pad have "length (population (fst (simulateGeneration (\<lambda>n. 0) 0 demo_state)))
        = populationSize demo_state
      \<and> message (fst (simulateGeneration (\<lambda>n. 0) 0 demo_state))
        = ''Simulating generation... Population weakened; random immigrants arrived.''"
    by blast
  with unit_draws_zero demo_collapse short show ?thesis by blast
qed

subsection \<open>The population invariant\<close>

lemma simulateGeneration_invariant:
  assumes "unit_draws rnd" and "list_all (\<lambda>p. trait p \<in> set TRAITS) (population s)"
  shows "length (population (fst (simulateGeneration rnd k s))) = populationSize s
       \<and> populationSize (fst (simulateGeneration rnd k s)) = populationSize s
       \<and> list_all (\<lambda>p. trait p \<in> set TRAITS) (population (fst (simulateGeneration rnd k s)))"
  using newPop_valid [OF assms, of k]
  by (simp add: population_simulateGeneration populationSize_simulateGeneration length_newPop)

lemma simulateGenerations_invariant:
  assumes "unit_draws rnd"
  shows "length (population s) = populationSize s \<Longrightarrow>
         list_all (\<lambda>p. trait p \<in> set TRAITS) (population s) \<Longrightarrow>
         length (population (fst (simulateGenerations n rnd k s))) = populationSize s
         \<and> populationSize (fst (simulateGenerations n rnd k s)) = populationSize s
         \<and> list_all (\<lambda>p. trait p \<in> set TRAITS) (population (fst (simulateGenerations n rnd k s)))"
proof (induction n arbitrary: k s)
  case 0
  then show ?case by simp
next
  case (Suc n)
  obtain s' k' where step: "simulateGeneration rnd k s = (s', k')"
    by (cases "simulateGeneration rnd k s")
  let ?t = "generationComplete s'"
  from simulateGeneration_invariant [OF assms Suc.prems(2), of k] step
  have inv: "length (population ?t) = populationSize ?t"
    "populationSize ?t = populationSize s"
    "list_all (\<lambda>p. trait p \<in> set TRAITS) (population ?t)"
    by (simp_all add: generationComplete_def)
  from Suc.IH [OF inv(1) inv(3), of k'] inv(2) step show ?case
    by simp
qed

text \<open>
  Claim C1. Take a state whose population has \<open>populationSize\<close> members, each with one of
  the traits Small, Medium, Large, and draws of the unit interval. The population that
  one call of \<open>simulateGeneration\<close> stores has exactly \<open>populationSize\<close> members, each with
  one of the three traits, and \<open>populationSize\<close> is as before; the same holds after any
  number \<open>n\<close> of successive steps.
\<close>

theorem population_invariant:
  assumes "unit_draws rnd"
    and "length (population s) = populationSize s"
    and "list_all (\<lambda>p. trait p \<in> set TRAITS) (population s)"
  shows "length (population (fst (simulateGeneration rnd k s))) = populationSize s
       \<and> populationSize (fst (simulateGeneration rnd k s)) = populationSize s
       \<and> list_all (\<lambda>p. trait p \<in> set [''Small'', ''Medium'', ''Large''])
           (population (fst (simulateGeneration rnd k s)))
       \<and> length (population (fst (simulateGenerations n rnd k s))) = populationSize s
       \<and> populationSize (fst (simulateGenerations n rnd k s)) = populationSize s
       \<and> list_all (\<lambda>p. trait p \<in> set [''Small'', ''Medium'', ''Large''])
           (population (fst (simulateGenerations n rnd k s)))"
  using simulateGeneration_invariant [OF assms(1,3), of k]
    simulateGenerations_invariant [OF assms, of n k]
  unfolding TRAITS_def by blast

theorem population_invariant_witness:
  "unit_draws demo_rnd
   \<and> length (population demo_state) = populationSize demo_state
   \<and> list_all (\<lambda>p. trait p \<in> set TRAITS) (population demo_state)
   \<and> length (population (fst (simulateGenerations 7 demo_rnd 0 demo_state))) = 3
   \<and> list_all (\<lambda>p. trait p \<in> set [''Small'', ''Medium'', ''Large''])
       (population (fst (simulateGenerations 7 demo_rnd 0 demo_state)))"
proof -
  have len: "length (population demo_state) = populationSize demo_state"
    by (simp add: demo_state_def)
  have val: "list_all (\<lambda>p. trait p \<in> set TRAITS) (population demo_state)"
    by (simp add: demo_state_def TRAITS_def)
  have sz: "populationSize demo_state = 3"
    by (simp add: demo_state_def)
  note inv = population_invariant [OF unit_draws_demo_rnd len val, of 0 7]
  from inv sz have "length (population (fst (simulateGenerations 7 demo_rnd 0 demo_state))) = 3
      \<and> list_all (\<lambda>p. trait p \<in> set [''Small'', ''Medium'', ''Large''])
          (population (fst (simulateGenerations 7 demo_rnd 0 demo_state)))"
    by simp
  with unit_draws_demo_rnd len val show ?thesis by blast
qed

subsection \<open>Roulette-wheel selection in the reproduction loop\<close>

lemma fst_breed:
  "fst (breed p0 pool rnd k) =
     \<lparr>oid = rnd (if rnd (k + 1) < 0.06 then k + 3 else k + 2),
      trait = (if rnd (k + 1) < 0.06
               then mutated (trait (walk (rnd k * totalScore pool) 0 p0 pool)) (rnd (k + 2))
               else trait (walk (rnd k * totalScore pool) 0 p0 pool)),
      energy = 0\<rparr>"
  by (simp add: breed_def Let_def)

lemma snd_breed: "k < snd (breed p0 pool rnd k)"
  by (simp add: breed_def Let_def)

lemma reproduce_children:
  assumes "pool = p0 # rest"
    and "list_all (\<lambda>c. \<exists>j\<ge>k0. c = fst (breed p0 pool rnd j)) off"
    and "k0 \<le> k"
  shows "list_all (\<lambda>c. \<exists>j\<ge>k0. c = fst (breed p0 pool rnd j)) (fst (reproduce sz pool rnd off k))"
  using assms
proof (induction sz pool rnd off k rule: reproduce.induct)
  case (1 sz pool rnd off k)
  show ?case
  proof (cases "length off < sz")
    case False
    with "1.prems" show ?thesis by (simp add: reproduce_full)
  next
    case True
    have "\<exists>j\<ge>k0. fst (breed p0 pool rnd k) = fst (breed p0 pool rnd j)"
      using "1.prems"(3) by blast
    with "1.prems"(2)
    have ch: "list_all (\<lambda>c. \<exists>j\<ge>k0. c = fst (breed p0 pool rnd j)) (off @ [fst (breed p0 pool rnd k)])"
      by simp
    have pos: "k0 \<le> snd (breed p0 pool rnd k)"
      using "1.prems"(3) snd_breed [of k p0 pool rnd] by simp
    from "1.IH" [OF True "1.prems"(1) "1.prems"(1) ch pos] True "1.prems"(1) show ?thesis
      by (simp add: reproduce_step)
  qed
qed

text \<open>
  Claim C4. Let \<open>pool\<close> be a non-empty pool left by predation and \<open>p0\<close> its first member.
  Every member of the pool has a score of at least \<open>0.07\<close> (fitness at least \<open>0.1\<close> times
  noise at least \<open>0.7\<close>), so the total score is positive. A reproduction pass \<open>breed\<close>
  that reads its first draw at \<open>j\<close> takes \<open>pick = rnd j * total\<close>, which lies in
  \<open>[0, total)\<close>; there is a first position \<open>i\<close> of the pool whose cumulative score reaches
  \<open>pick\<close>, the member there has a positive score, and the child that the pass pushes is
  made from that member: its trait is the member's trait, or the mutation of that trait
  when the second draw is below \<open>0.06\<close>. The offspring of the step are \<open>populationSize\<close>
  such children, each of a pass over this pool at a draw position after predation.
\<close>

theorem roulette_selects_first_reaching:
  assumes "unit_draws rnd"
    and "afterPredation rnd k s = (pool, k')"
    and "pool = p0 # rest"
  shows "list_all (\<lambda>p. 0.07 \<le> score p) pool
       \<and> 0 < totalScore pool
       \<and> 0 \<le> rnd j * totalScore pool
       \<and> rnd j * totalScore pool < totalScore pool
       \<and> (\<exists>i<length pool.
              rnd j * totalScore pool \<le> sum_list (map score (take (Suc i) pool))
            \<and> (\<forall>m<i. sum_list (map score (take (Suc m) pool)) < rnd j * totalScore pool)
            \<and> 0 < score (pool ! i)
            \<and> fst (breed p0 pool rnd j) =
                 \<lparr>oid = rnd (if rnd (j + 1) < 0.06 then j + 3 else j + 2),
                  trait = (if rnd (j + 1) < 0.06
                           then mutated (trait (pool ! i)) (rnd (j + 2))
                           else trait (pool ! i)),
                  energy = 0\<rparr>)
       \<and> list_all (\<lambda>c. \<exists>j\<ge>k'. c = fst (breed p0 pool rnd j)) (fst (offspring rnd k s))
       \<and> length (fst (offspring rnd k s)) = populationSize s"
proof -
  let ?total = "totalScore pool"
  let ?pick = "rnd j * ?total"
  let ?parent = "walk ?pick 0 p0 pool"
  from assms(1) have u: "0 \<le> rnd j" "rnd j < 1"
    by (simp_all add: unit_draws_def)
  have ne: "pool \<noteq> []" using assms(3) by simp
  have ap: "fst (afterPredation rnd k s) = pool" "snd (afterPredation rnd k s) = k'"
    using assms(2) by simp_all
  have sc: "list_all (\<lambda>p. 0.07 \<le> score p) pool"
    using scores_afterPredation [OF assms(1), of k s] ap by simp
  have tot: "0 < ?total"
    using sum_list_scores_pos [OF ne sc] by (simp add: totalScore_sum_list)
  have p0: "0 \<le> ?pick" using u tot by simp
  have p1: "?pick < ?total" using u tot by simp
  then have "?pick \<le> 0 + sum_list (map score pool)"
    by (simp add: totalScore_sum_list)
  from walk_first_reaching [OF ne this, of p0]
  obtain i where i: "i < length pool" and w: "?parent = pool ! i"
    and r: "?pick \<le> sum_list (map score (take (Suc i) pool))"
    and b: "\<forall>m<i. sum_list (map score (take (Suc m) pool)) < ?pick"
    by auto
  have "0.07 \<le> score (pool ! i)"
    using sc i by (simp add: list_all_length)
  then have pos: "0 < score (pool ! i)" by simp
  have child: "fst (breed p0 pool rnd j) =
      \<lparr>oid = rnd (if rnd (j + 1) < 0.06 then j + 3 else j + 2),
       trait = (if rnd (j + 1) < 0.06
                then mutated (trait (pool ! i)) (rnd (j + 2))
                else trait (pool ! i)),
       energy = 0\<rparr>"
    unfolding fst_breed w ..
  have ex: "\<exists>i<length pool.
        ?pick \<le> sum_list (map score (take (Suc i) pool))
      \<and> (\<forall>m<i. sum_list (map score (take (Suc m) pool)) < ?pick)
      \<and> 0 < score (pool ! i)
      \<and> fst (breed p0 pool rnd j) =
           \<lparr>oid = rnd (if rnd (j + 1) < 0.06 then j + 3 else j + 2),
            trait = (if rnd (j + 1) < 0.06
                     then mutated (trait (pool ! i)) (rnd (j + 2))
                     else trait (pool ! i)),
            energy = 0\<rparr>"
    using i r b pos child by blast
  have off: "fst (offspring rnd k s) = fst (reproduce (populationSize s) pool rnd [] k')"
    by (simp add: fst_offspring ap)
  have kids: "list_all (\<lambda>c. \<exists>j\<ge>k'. c = fst (breed p0 pool rnd j)) (fst (offspring rnd k s))"
    unfolding off by (rule reproduce_children [OF assms(3)]) simp_all
  have len: "length (fst (offspring rnd k s)) = populationSize s"
    using ne by (simp add: length_offspring ap)
  from sc tot p0 p1 ex kids len show ?thesis by blast
qed

theorem roulette_selects_first_reaching_witness:
  "unit_draws demo_rnd
   \<and> afterPredation demo_rnd 0 demo_state =
       ([\<lparr>oid = 0.11, trait = ''Small'', energy = 0, score = 806 / 625\<rparr>,
         \<lparr>oid = 0.33, trait = ''Medium'', energy = 0, score = 5029 / 5000\<rparr>], 5)
   \<and> fst (breed \<lparr>oid = 0.11, trait = ''Small'', energy = 0, score = 806 / 625\<rparr>
              [\<lparr>oid = 0.11, trait = ''Small'', energy = 0, score = 806 / 625\<rparr>,
               \<lparr>oid = 0.33, trait = ''Medium'', energy = 0, score = 5029 / 5000\<rparr>] demo_rnd 8)
       = \<lparr>oid = 0.7, trait = ''Medium'', energy = 0\<rparr>
   \<and> length (fst (offspring demo_rnd 0 demo_state)) = 3"
proof -
  let ?a = "\<lparr>oid = 0.11, trait = ''Small'', energy = 0, score = 806 / 625\<rparr>"
  let ?b = "\<lparr>oid = 0.33, trait = ''Medium'', energy = 0, score = 5029 / 5000\<rparr>"
  let ?pool = "[?a, ?b]"
  have d: "demo_rnd 8 = 0.9" "demo_rnd 9 = 0.05" "demo_rnd 10 = 0.4" "demo_rnd 11 = 0.7"
    by (simp_all add: demo_rnd_def)
  have t: "totalScore ?pool = 11477 / 5000"
    by (simp add: totalScore_def)
  note sel = roulette_selects_first_reaching [OF unit_draws_demo_rnd demo_afterPredation refl, of 8]
  from sel obtain i where i: "i < length ?pool"
    and r: "demo_rnd 8 * totalScore ?pool \<le> sum_list (map score (take (Suc i) ?pool))"
    and c: "fst (breed ?a ?pool demo_rnd 8) =
        \<lparr>oid = demo_rnd (if demo_rnd (8 + 1) < 0.06 then 8 + 3 else 8 + 2),
         trait = (if demo_rnd (8 + 1) < 0.06
                  then mutated (trait (?pool ! i)) (demo_rnd (8 + 2))
                  else trait (?pool ! i)),
         energy = 0\<rparr>"
    by blast
  have "i \<noteq> 0"
  proof
    assume "i = 0"
    with r show False unfolding d t by simp
  qed
  with i have i1: "i = 1" by simp
  have m: "mutated ''Medium'' (2 / 5 :: real) = ''Medium''"
    by (simp add: mutated_Medium)
  have child: "fst (breed ?a ?pool demo_rnd 8) = \<lparr>oid = 0.7, trait = ''Medium'', energy = 0\<rparr>"
    using c i1 by (simp add: d m)
  from sel have len: "length (fst (offspring demo_rnd 0 demo_state)) = populationSize demo_state"
    by blast
  have "populationSize demo_state = 3" by (simp add: demo_state_def)
  with len have l3: "length (fst (offspring demo_rnd 0 demo_state)) = 3" by simp
  from unit_draws_demo_rnd demo_afterPredation child l3 show ?thesis by blast
qed

end
